theory Spec2Isabelle
  imports Complex_Main "HOL-Library.Sublist" "HOL-Library.AList"
begin

section \<open>Python strings\<close>

text \<open>
  Strings are character lists. What \<open>str.lower\<close> makes of a string, and of which
  characters \<open>str.isspace\<close> holds, is fixed by the Unicode tables of the Python runtime,
  which are no part of the program. Every function that lower-cases or splits takes them as
  a parameter, and what is proved of it holds for all tables.
\<close>

record unicode_tables =
  str_lower :: "string \<Rightarrow> string"
  str_isspace :: "char \<Rightarrow> bool"

text \<open>\<open>needle in haystack\<close> on strings: the needle occurs as a contiguous block.\<close>

fun py_in :: "string \<Rightarrow> string \<Rightarrow> bool" where
  "py_in needle [] = (needle = [])"
| "py_in needle (c # cs) = (prefix needle (c # cs) \<or> py_in needle cs)"

text \<open>
  \<open>s.split()\<close>: the maximal runs of characters that are not whitespace, in order.
\<close>

fun split_acc :: "(char \<Rightarrow> bool) \<Rightarrow> string \<Rightarrow> string \<Rightarrow> string list" where
  "split_acc sp w [] = (if w = [] then [] else [w])"
| "split_acc sp w (c # cs) =
     (if sp c then (if w = [] then split_acc sp [] cs else w # split_acc sp [] cs)
      else split_acc sp (w @ [c]) cs)"

definition py_split :: "unicode_tables \<Rightarrow> string \<Rightarrow> string list" where
  "py_split u s = split_acc (str_isspace u) [] s"

text \<open>\<open>sep.join(parts)\<close>.\<close>

fun py_join :: "string \<Rightarrow> string list \<Rightarrow> string" where
  "py_join sep [] = []"
| "py_join sep [x] = x"
| "py_join sep (x # y # ys) = x @ sep @ py_join sep (y # ys)"

text \<open>\<open>s.find(c)\<close> and \<open>s.rfind(c)\<close> for a single character: an index, or -1.\<close>

fun find_char :: "char \<Rightarrow> string \<Rightarrow> int" where
  "find_char c [] = - 1"
| "find_char c (x # xs) =
     (if x = c then 0 else (let r = find_char c xs in if r = - 1 then - 1 else r + 1))"

definition rfind_char :: "char \<Rightarrow> string \<Rightarrow> int" where
  "rfind_char c s =
     (let r = find_char c (rev s) in if r = - 1 then - 1 else int (length s) - 1 - r)"

text \<open>\<open>s[a:b]\<close> for indices that are not negative.\<close>

definition slice :: "string \<Rightarrow> int \<Rightarrow> int \<Rightarrow> string" where
  "slice s a b = drop (nat a) (take (nat b) s)"

text \<open>\<open>str(n)\<close> for integers, as an f-string prints them.\<close>

fun str_nat :: "nat \<Rightarrow> string" where
  "str_nat n =
     (if n < 10 then [''0123456789'' ! n]
      else str_nat (n div 10) @ [''0123456789'' ! (n mod 10)])"

definition str_int :: "int \<Rightarrow> string" where
  "str_int i = (if i < 0 then ''-'' @ str_nat (nat (- i)) else str_nat (nat i))"

section \<open>Data of the scoring component\<close>

text \<open>
  An idea is the dictionary the reader hands over. The code reads \<open>title\<close> with
  \<open>idea['title']\<close> everywhere, so it is a field that is always there; \<open>description\<close>,
  \<open>rationale\<close> and \<open>topic_tags\<close> are read with \<open>get\<close> in places, so they may be absent.
\<close>

record idea =
  title :: string
  description :: "string option"
  rationale :: "string option"
  topic_tags :: "string list option"

text \<open>A parsed JSON value, as \<open>json.loads\<close> returns it.\<close>

datatype json =
    JNull
  | JBool bool
  | JInt int
  | JFloat real
  | JStr string
  | JArr "json list"
  | JObj "(string \<times> json) list"

datatype error = KeyError string | TypeError string | ValueError string | Failure string

section \<open>Topic match\<close>

text \<open>\<open>SearcherAgent._calculate_topic_match\<close>.\<close>

definition calculate_topic_match :: "unicode_tables \<Rightarrow> idea \<Rightarrow> string list \<Rightarrow> real" where
  "calculate_topic_match u idea user_topics =
     (if user_topics = [] then 3
      else
        let idea_tags = map (str_lower u) (case topic_tags idea of None \<Rightarrow> [] | Some ts \<Rightarrow> ts);
            user_topics_lower = map (str_lower u) user_topics;
            matches = length (filter (\<lambda>tag. list_ex (\<lambda>topic. py_in topic tag \<or> py_in tag topic)
                                                 user_topics_lower) idea_tags)
        in if idea_tags = [] then 2.5
           else
             let match_ratio = real matches / real (max (length user_topics) 1)
             in min (match_ratio * 5) 5)"

text \<open>
  The specification's description of the count: the tags of the idea that, compared without
  regard to case (that is, after \<open>str.lower\<close>), contain a user topic or are contained
  in one.
\<close>

definition tags_of :: "idea \<Rightarrow> string list" where
  "tags_of idea = (case topic_tags idea of None \<Rightarrow> [] | Some ts \<Rightarrow> ts)"

definition tag_hits_spec :: "unicode_tables \<Rightarrow> string list \<Rightarrow> string list \<Rightarrow> nat" where
  "tag_hits_spec u tags topics =
     length (filter (\<lambda>tag. \<exists>topic \<in> set topics.
                              sublist (str_lower u topic) (str_lower u tag)
                            \<or> sublist (str_lower u tag) (str_lower u topic))
                    tags)"

section \<open>External services\<close>

text \<open>
  The literature-search service and the text-analysis service are outside the program. The
  world holds the Unicode tables of the runtime and gives the outcome of each call, indexed by how many calls came before; the state
  counts the calls and records them, with every \<open>time.sleep\<close>, in a trace. Output written
  with \<open>print\<close> is not modelled.
\<close>

datatype event =
    Sleep nat
  | HttpGet string nat
  | Generate string
  | ExtractText string
  | AnalyzePaper string "string list"

datatype request_exn = HTTPError nat | OtherRequestError

text \<open>
  A record of the search service's reply, before formatting. A field is \<open>None\<close> when the
  key is absent (and, for the abstract, also when it is null).
\<close>

record raw_paper =
  r_title :: "string option"
  r_abstract :: "string option"
  r_year :: "int option"
  r_citationCount :: "int option"
  r_authors :: "string option list option"
  r_url :: "string option"

text \<open>
  \<open>requests.get\<close> raises, or returns a response with a status code and a body; the body
  is \<open>None\<close> when \<open>response.json()\<close> raises, and otherwise holds the value under the key
  \<open>data\<close>, if there is one.
\<close>

datatype get_outcome = GetRaises request_exn | Response nat "raw_paper list option option"

datatype llm_outcome = GenerateRaises string | ResponseText string

record world =
  unicode :: unicode_tables
  http_get :: "nat \<Rightarrow> string \<Rightarrow> nat \<Rightarrow> get_outcome"
  generate_content :: "nat \<Rightarrow> string \<Rightarrow> llm_outcome"
  json_loads :: "string \<Rightarrow> json option"

record st =
  n_http :: nat
  n_llm :: nat
  trace :: "event list"

definition sleep :: "nat \<Rightarrow> st \<Rightarrow> st" where
  "sleep secs s = s\<lparr>trace := trace s @ [Sleep secs]\<rparr>"

definition requests_get :: "world \<Rightarrow> string \<Rightarrow> nat \<Rightarrow> st \<Rightarrow> get_outcome \<times> st" where
  "requests_get w query limit s =
     (http_get w (n_http s) query limit,
      s\<lparr>n_http := n_http s + 1, trace := trace s @ [HttpGet query limit]\<rparr>)"

definition model_generate :: "world \<Rightarrow> string \<Rightarrow> st \<Rightarrow> llm_outcome \<times> st" where
  "model_generate w prompt s =
     (generate_content w (n_llm s) prompt,
      s\<lparr>n_llm := n_llm s + 1, trace := trace s @ [Generate prompt]\<rparr>)"

section \<open>Literature search\<close>

record paper =
  p_title :: string
  p_abstract :: string
  p_year :: "int option"
  p_citations :: int
  p_authors :: "string list"
  p_url :: string

definition or_default :: "'a \<Rightarrow> 'a option \<Rightarrow> 'a" where
  "or_default d v = (case v of None \<Rightarrow> d | Some x \<Rightarrow> x)"

definition has_abstract :: "raw_paper \<Rightarrow> bool" where
  "has_abstract rp = (case r_abstract rp of None \<Rightarrow> False | Some a \<Rightarrow> a \<noteq> [])"

definition format_paper :: "raw_paper \<Rightarrow> paper" where
  "format_paper rp =
     \<lparr>p_title = or_default [] (r_title rp),
      p_abstract = or_default [] (r_abstract rp),
      p_year = r_year rp,
      p_citations = or_default 0 (r_citationCount rp),
      p_authors = map (or_default []) (take 3 (or_default [] (r_authors rp))),
      p_url = or_default [] (r_url rp)\<rparr>"

definition format_papers :: "raw_paper list \<Rightarrow> paper list" where
  "format_papers papers = map format_paper (filter has_abstract papers)"

text \<open>
  The loop of \<open>SearcherAgent._search_papers\<close> over \<open>range(max_retries)\<close>. A status of 429
  sleeps and goes to the next attempt; \<open>raise_for_status\<close> raises for a status from 400 to
  599, and the handler of that error retries only a 429 that is not the last attempt; every
  other exception, a body that does not parse among them, returns the empty list. When the
  attempts are used up the loop ends and the empty list is returned.
\<close>

fun search_attempts ::
  "world \<Rightarrow> string \<Rightarrow> nat \<Rightarrow> nat \<Rightarrow> nat list \<Rightarrow> st \<Rightarrow> paper list \<times> st" where
  "search_attempts w query limit max_retries [] s = ([], s)"
| "search_attempts w query limit max_retries (attempt # rest) s =
     (case requests_get w query limit s of
        (GetRaises (HTTPError code), s1) \<Rightarrow>
          if code = 429 \<and> int attempt < int max_retries - 1
          then search_attempts w query limit max_retries rest (sleep (2 ^ attempt * 2) s1)
          else ([], s1)
      | (GetRaises OtherRequestError, s1) \<Rightarrow> ([], s1)
      | (Response code body, s1) \<Rightarrow>
          if code = 429
          then search_attempts w query limit max_retries rest (sleep (2 ^ attempt * 2) s1)
          else if 400 \<le> code \<and> code < 600
          then (if code = 429 \<and> int attempt < int max_retries - 1
                then search_attempts w query limit max_retries rest (sleep (2 ^ attempt * 2) s1)
                else ([], s1))
          else (case body of
                  None \<Rightarrow> ([], s1)
                | Some data \<Rightarrow> (format_papers (or_default [] data), s1)))"

definition search_query :: "idea \<Rightarrow> string" where
  "search_query idea = title idea @ '' '' @ take 100 (or_default [] (description idea))"

definition search_papers :: "world \<Rightarrow> idea \<Rightarrow> nat \<Rightarrow> nat \<Rightarrow> st \<Rightarrow> paper list \<times> st" where
  "search_papers w idea limit max_retries s =
     search_attempts w (search_query idea) limit max_retries [0..<max_retries] s"

section \<open>Assessments by the text-analysis service\<close>

text \<open>
  The body of the \<open>try\<close> block that \<open>_assess_novelty\<close>, \<open>_assess_doability\<close> and
  \<open>_synthesize_literature\<close> share: call the service, cut the text from the first opening
  brace to the last closing brace when there is such a span, and parse it. \<open>None\<close> stands
  for any exception raised inside the block.
\<close>

definition extract_json :: "string \<Rightarrow> string" where
  "extract_json content =
     (let json_start = find_char CHR ''{'' content;
          json_end = rfind_char CHR ''}'' content + 1
      in if json_start \<noteq> - 1 \<and> json_end > json_start then slice content json_start json_end
         else content)"

definition generate_and_parse :: "world \<Rightarrow> string \<Rightarrow> st \<Rightarrow> json option \<times> st" where
  "generate_and_parse w prompt s =
     (case model_generate w prompt s of
        (GenerateRaises msg, s1) \<Rightarrow> (None, s1)
      | (ResponseText content, s1) \<Rightarrow> (json_loads w (extract_json content), s1))"

definition str_year :: "int option \<Rightarrow> string" where
  "str_year y = (case y of None \<Rightarrow> ''None'' | Some i \<Rightarrow> str_int i)"

definition novelty_prompt_1 :: string where
  \<open>novelty_prompt_1 =
     ''Assess the novelty of this research idea based on existing literature.\<newline>'' @
     ''\<newline>'' @
     ''Research Idea:\<newline>'' @
     ''Title: ''\<close>

definition novelty_prompt_2 :: string where
  \<open>novelty_prompt_2 =
     ''\<newline>'' @
     ''Description: ''\<close>

definition novelty_prompt_3 :: string where
  \<open>novelty_prompt_3 =
     ''\<newline>'' @
     ''\<newline>'' @
     ''Related Papers Found:\<newline>''\<close>

definition novelty_prompt_4 :: string where
  \<open>novelty_prompt_4 =
     ''\<newline>'' @
     ''\<newline>'' @
     ''Assess:\<newline>'' @
     ''1. Has this specific idea been extensively explored? (Yes/Partially/No)\<newline>'' @
     ''2. Research maturity level: Unexplored / Emerging / Active / Saturated\<newline>'' @
     ''3. What specific gap or unexplored angle does this idea address?\<newline>'' @
     ''4. Novelty score: Rate 1-5 (1=extensively explored, 5=highly novel)\<newline>'' @
     ''\<newline>'' @
     ''Return ONLY valid JSON:\<newline>'' @
     ''{\<newline>'' @
     ''  "explored": "Yes/Partially/No",\<newline>'' @
     ''  "maturity": "Unexplored/Emerging/Active/Saturated",\<newline>'' @
     ''  "gap": "description of gap",\<newline>'' @
     ''  "novelty_score": 1-5\<newline>'' @
     ''}''\<close>

definition paper_summary :: "paper \<Rightarrow> string" where
  "paper_summary p =
     ''Title: '' @ p_title p @ ''\<newline>Year: '' @ str_year (p_year p)
       @ ''\<newline>Abstract: '' @ take 300 (p_abstract p) @ ''...''"

definition novelty_prompt :: "string \<Rightarrow> string \<Rightarrow> paper list \<Rightarrow> string" where
  "novelty_prompt t d papers =
     novelty_prompt_1 @ t @ novelty_prompt_2 @ d @ novelty_prompt_3
       @ py_join ''\<newline>\<newline>'' (map paper_summary (take 10 papers)) @ novelty_prompt_4"

definition novelty_fallback :: json where
  "novelty_fallback =
     JObj [(''explored'', JStr ''Unknown''), (''maturity'', JStr ''Unknown''),
           (''gap'', JStr ''Unable to assess''), (''novelty_score'', JInt 3)]"

text \<open>
  \<open>SearcherAgent._assess_novelty\<close>. The prompt is built before the \<open>try\<close> block, so an
  idea without a description raises \<open>KeyError\<close> to the caller.
\<close>

definition assess_novelty :: "world \<Rightarrow> idea \<Rightarrow> paper list \<Rightarrow> st \<Rightarrow> (error + json) \<times> st" where
  "assess_novelty w idea papers s =
     (case description idea of
        None \<Rightarrow> (Inl (KeyError ''description''), s)
      | Some d \<Rightarrow>
          (case generate_and_parse w (novelty_prompt (title idea) d papers) s of
             (None, s1) \<Rightarrow> (Inr novelty_fallback, s1)
           | (Some assessment, s1) \<Rightarrow> (Inr assessment, s1)))"

definition doability_prompt_1 :: string where
  \<open>doability_prompt_1 =
     ''Assess the feasibility and doability of this research idea.\<newline>'' @
     ''\<newline>'' @
     ''Research Idea:\<newline>'' @
     ''Title: ''\<close>

definition doability_prompt_2 :: string where
  \<open>doability_prompt_2 =
     ''\<newline>'' @
     ''Description: ''\<close>

definition doability_prompt_3 :: string where
  \<open>doability_prompt_3 =
     ''\<newline>'' @
     ''\<newline>'' @
     ''Based on the idea and typical research resources, assess:\<newline>'' @
     ''1. Data availability: Are datasets available or need to be collected? (Available/Partially'' @
     ''/Need to Collect)\<newline>'' @
     ''2. Methodology complexity: Can standard methods be used? (Standard/Moderate/Novel Methods '' @
     ''Needed)\<newline>'' @
     ''3. Estimated timeline: (3 months / 6 months / 1 year+)\<newline>'' @
     ''4. Required expertise: (Undergraduate / Masters / PhD level)\<newline>'' @
     ''5. Doability score: Rate 1-5 (1=very difficult, 5=highly doable)\<newline>'' @
     ''\<newline>'' @
     ''Return ONLY valid JSON:\<newline>'' @
     ''{\<newline>'' @
     ''  "data_availability": "Available/Partially/Need to Collect",\<newline>'' @
     ''  "methodology": "Standard/Moderate/Novel Methods Needed",\<newline>'' @
     ''  "timeline": "3 months/6 months/1 year+",\<newline>'' @
     ''  "expertise_level": "Undergraduate/Masters/PhD level",\<newline>'' @
     ''  "doability_score": 1-5\<newline>'' @
     ''}''\<close>

definition doability_prompt :: "string \<Rightarrow> string \<Rightarrow> string" where
  "doability_prompt t d = doability_prompt_1 @ t @ doability_prompt_2 @ d @ doability_prompt_3"

definition doability_fallback :: json where
  "doability_fallback =
     JObj [(''data_availability'', JStr ''Unknown''), (''methodology'', JStr ''Unknown''),
           (''timeline'', JStr ''Unknown''), (''expertise_level'', JStr ''Unknown''),
           (''doability_score'', JInt 3)]"

text \<open>\<open>SearcherAgent._assess_doability\<close>.\<close>

definition assess_doability :: "world \<Rightarrow> idea \<Rightarrow> paper list \<Rightarrow> st \<Rightarrow> (error + json) \<times> st" where
  "assess_doability w idea papers s =
     (case description idea of
        None \<Rightarrow> (Inl (KeyError ''description''), s)
      | Some d \<Rightarrow>
          (case generate_and_parse w (doability_prompt (title idea) d) s of
             (None, s1) \<Rightarrow> (Inr doability_fallback, s1)
           | (Some assessment, s1) \<Rightarrow> (Inr assessment, s1)))"

definition synthesis_prompt_1 :: string where
  \<open>synthesis_prompt_1 =
     ''Synthesize the literature for this research idea.\<newline>'' @
     ''\<newline>'' @
     ''Research Idea: ''\<close>

definition synthesis_prompt_2 :: string where
  \<open>synthesis_prompt_2 =
     ''\<newline>'' @
     ''\<newline>'' @
     ''Related Papers:\<newline>''\<close>

definition synthesis_prompt_3 :: string where
  \<open>synthesis_prompt_3 =
     ''\<newline>'' @
     ''\<newline>'' @
     ''Create a synthesis that includes:\<newline>'' @
     ''1. A brief overview of what has been done (2-3 sentences)\<newline>'' @
     ''2. Key papers categorized as: Foundational Work, Recent Advances, or Identifies Gaps\<newline>'' @
     ''3. What's missing or unexplored\<newline>'' @
     ''4. Suggested approach (methodology, potential datasets, concrete next steps)\<newline>'' @
     ''\<newline>'' @
     ''Return ONLY valid JSON:\<newline>'' @
     ''{\<newline>'' @
     ''  "overview": "What has been done...",\<newline>'' @
     ''  "key_papers": [\<newline>'' @
     ''    {"paper_index": 1, "category": "Foundational/Recent/Gap", "summary": "2 sentence summa'' @
     ''ry"},\<newline>'' @
     ''    ...\<newline>'' @
     ''  ],\<newline>'' @
     ''  "whats_missing": "The specific gap...",\<newline>'' @
     ''  "suggested_approach": "Concrete next steps..."\<newline>'' @
     ''}''\<close>

definition paper_text :: "nat \<times> paper \<Rightarrow> string" where
  "paper_text ip =
     ''['' @ str_nat (fst ip + 1) @ ''] '' @ p_title (snd ip) @ '' ('' @ str_year (p_year (snd ip))
       @ '')\<newline>'' @ take 200 (p_abstract (snd ip)) @ ''...''"

definition synthesis_prompt :: "string \<Rightarrow> paper list \<Rightarrow> string" where
  "synthesis_prompt t papers =
     synthesis_prompt_1 @ t @ synthesis_prompt_2
       @ py_join ''\<newline>\<newline>'' (map paper_text (enumerate 0 (take 8 papers))) @ synthesis_prompt_3"

definition synthesis_fallback :: json where
  "synthesis_fallback =
     JObj [(''overview'', JStr ''Unable to synthesize''), (''key_papers'', JArr []),
           (''whats_missing'', JStr ''Unable to assess''),
           (''suggested_approach'', JStr ''Unable to provide'')]"

text \<open>\<open>SearcherAgent._synthesize_literature\<close>.\<close>

definition synthesize_literature :: "world \<Rightarrow> idea \<Rightarrow> paper list \<Rightarrow> st \<Rightarrow> json \<times> st" where
  "synthesize_literature w idea papers s =
     (case generate_and_parse w (synthesis_prompt (title idea) papers) s of
        (None, s1) \<Rightarrow> (synthesis_fallback, s1)
      | (Some synthesis, s1) \<Rightarrow> (synthesis, s1))"

section \<open>Scoring and ranking\<close>

record scored_idea =
  si_idea :: idea
  si_papers :: "paper list"
  novelty_assessment :: json
  doability_assessment :: json
  topic_match_score :: real
  composite_score :: real
  literature_synthesis :: "json option"

text \<open>\<open>d[key]\<close> on a parsed JSON value: only an object can be indexed by a string.\<close>

definition subscript :: "json \<Rightarrow> string \<Rightarrow> error + json" where
  "subscript j k =
     (case j of
        JObj kvs \<Rightarrow> (case map_of kvs k of None \<Rightarrow> Inl (KeyError k) | Some v \<Rightarrow> Inr v)
      | _ \<Rightarrow> Inl (TypeError ''indices''))"

text \<open>
  The number a JSON value stands for in a product with a float: integers, floats and the
  booleans (which are integers in Python); anything else raises \<open>TypeError\<close>.
\<close>

definition number_of :: "json \<Rightarrow> error + real" where
  "number_of j =
     (case j of
        JInt i \<Rightarrow> Inr (real_of_int i)
      | JFloat r \<Rightarrow> Inr r
      | JBool b \<Rightarrow> Inr (if b then 1 else 0)
      | _ \<Rightarrow> Inl (TypeError ''unsupported operand''))"

definition score_of :: "json \<Rightarrow> string \<Rightarrow> error + real" where
  "score_of assessment k =
     (case subscript assessment k of Inl e \<Rightarrow> Inl e | Inr v \<Rightarrow> number_of v)"

text \<open>The composite score of \<open>research_ideas\<close>: 30% novelty, 40% doability, 30% topic match.\<close>

definition composite :: "json \<Rightarrow> json \<Rightarrow> real \<Rightarrow> error + real" where
  "composite nov doa tm =
     (case score_of nov ''novelty_score'' of
        Inl e \<Rightarrow> Inl e
      | Inr n \<Rightarrow>
          (case score_of doa ''doability_score'' of
             Inl e \<Rightarrow> Inl e
           | Inr d \<Rightarrow> Inr (0.3 * n + 0.4 * d + 0.3 * tm)))"

text \<open>
  The first loop of \<open>SearcherAgent.research_ideas\<close>: search, assess, score, append, and
  sleep three seconds after each idea. An exception ends the loop and goes to the caller.
\<close>

fun score_ideas ::
  "world \<Rightarrow> string list \<Rightarrow> idea list \<Rightarrow> scored_idea list \<Rightarrow> st \<Rightarrow> (error + scored_idea list) \<times> st"
  where
  "score_ideas w user_topics [] scored_ideas s = (Inr scored_ideas, s)"
| "score_ideas w user_topics (idea # rest) scored_ideas s =
     (case search_papers w idea 20 3 s of
        (papers, s1) \<Rightarrow>
          (case assess_novelty w idea papers s1 of
             (Inl e, s2) \<Rightarrow> (Inl e, s2)
           | (Inr nov, s2) \<Rightarrow>
               (case assess_doability w idea papers s2 of
                  (Inl e, s3) \<Rightarrow> (Inl e, s3)
                | (Inr doa, s3) \<Rightarrow>
                    (case composite nov doa (calculate_topic_match (unicode w) idea user_topics) of
                       Inl e \<Rightarrow> (Inl e, s3)
                     | Inr c \<Rightarrow>
                         score_ideas w user_topics rest
                           (scored_ideas @
                              [\<lparr>si_idea = idea, si_papers = take 8 papers,
                                novelty_assessment = nov, doability_assessment = doa,
                                topic_match_score = calculate_topic_match (unicode w) idea user_topics,
                                composite_score = c, literature_synthesis = None\<rparr>])
                           (sleep 3 s3)))))"

text \<open>
  \<open>SearcherAgent._select_diverse_top_3\<close>. The inner loop compares the word sets of two
  lower-cased titles and stops at the first selected title with more than three words in
  common; the outer loop stops once three items are selected.
\<close>

definition common_words :: "unicode_tables \<Rightarrow> string \<Rightarrow> string \<Rightarrow> string set" where
  "common_words u current_title selected_title =
     set (py_split u current_title) \<inter> set (py_split u selected_title)"

fun is_diverse :: "unicode_tables \<Rightarrow> string \<Rightarrow> scored_idea list \<Rightarrow> bool" where
  "is_diverse u current_title [] = True"
| "is_diverse u current_title (selected # rest) =
     (if card (common_words u current_title (str_lower u (title (si_idea selected)))) > 3 then False
      else is_diverse u current_title rest)"

fun diverse_loop ::
  "unicode_tables \<Rightarrow> scored_idea list \<Rightarrow> scored_idea list \<Rightarrow> scored_idea list" where
  "diverse_loop u top_3 [] = top_3"
| "diverse_loop u top_3 (item # rest) =
     (if length top_3 \<ge> 3 then top_3
      else if is_diverse u (str_lower u (title (si_idea item))) top_3
      then diverse_loop u (top_3 @ [item]) rest
      else diverse_loop u top_3 rest)"

definition select_diverse_top_3 :: "unicode_tables \<Rightarrow> scored_idea list \<Rightarrow> scored_idea list" where
  "select_diverse_top_3 u scored_ideas =
     (if length scored_ideas \<le> 3 then scored_ideas
      else
        (case scored_ideas of
           [] \<Rightarrow> []
         | first # others \<Rightarrow>
             (let top_3 = diverse_loop u [first] others
              in if length top_3 < 3 then take 3 scored_ideas else top_3)))"

text \<open>The second loop of \<open>research_ideas\<close>: a literature synthesis for each selected item.\<close>

fun synthesize_all :: "world \<Rightarrow> scored_idea list \<Rightarrow> st \<Rightarrow> scored_idea list \<times> st" where
  "synthesize_all w [] s = ([], s)"
| "synthesize_all w (item # rest) s =
     (case synthesize_literature w (si_idea item) (si_papers item) s of
        (syn, s1) \<Rightarrow>
          (case synthesize_all w rest s1 of
             (rest', s2) \<Rightarrow> (item\<lparr>literature_synthesis := Some syn\<rparr> # rest', s2)))"

record research_result =
  top_ideas :: "scored_idea list"
  total_ideas_analyzed :: nat

text \<open>
  \<open>SearcherAgent.research_ideas\<close>. The sort is Python's stable sort on the composite
  score with \<open>reverse=True\<close>, which keeps equal items in their order: a stable sort on the
  negated score.
\<close>

definition research_ideas ::
  "world \<Rightarrow> idea list \<Rightarrow> string list \<Rightarrow> st \<Rightarrow> (error + research_result) \<times> st" where
  "research_ideas w ideas user_topics s =
     (case score_ideas w user_topics ideas [] s of
        (Inl e, s1) \<Rightarrow> (Inl e, s1)
      | (Inr scored_ideas, s1) \<Rightarrow>
          (case synthesize_all w
                  (select_diverse_top_3 (unicode w)
                     (sort_key (\<lambda>x. - composite_score x) scored_ideas)) s1 of
             (selected, s2) \<Rightarrow>
               (Inr \<lparr>top_ideas = selected, total_ideas_analyzed = length ideas\<rparr>, s2)))"

text \<open>
  The selection as the specification words it: the accepted list starts with the best
  candidate; each later candidate, in order, is accepted when its lower-cased title shares at
  most three whole words with every accepted title; the pass stops at three accepted.
\<close>

definition shares_at_most_3 :: "unicode_tables \<Rightarrow> scored_idea \<Rightarrow> scored_idea \<Rightarrow> bool" where
  "shares_at_most_3 u a b =
     (card (set (py_split u (str_lower u (title (si_idea a))))
              \<inter> set (py_split u (str_lower u (title (si_idea b)))))
        \<le> 3)"

fun greedy_spec ::
  "unicode_tables \<Rightarrow> scored_idea list \<Rightarrow> scored_idea list \<Rightarrow> scored_idea list" where
  "greedy_spec u accepted [] = accepted"
| "greedy_spec u accepted (c # cs) =
     (if length accepted = 3 then accepted
      else if (\<forall>a \<in> set accepted. shares_at_most_3 u c a) then greedy_spec u (accepted @ [c]) cs
      else greedy_spec u accepted cs)"

section \<open>Profile inference\<close>

text \<open>Python's truth value of an optional string: \<open>None\<close> and the empty string are false.\<close>

definition truthy :: "string option \<Rightarrow> bool" where
  "truthy v = (case v of None \<Rightarrow> False | Some t \<Rightarrow> t \<noteq> [])"

definition profile_prompt_1 :: string where
  \<open>profile_prompt_1 =
     ''You are a research profile analyzer. Analyze this researcher's description and create a st'' @
     ''ructured profile.\<newline>'' @
     ''\<newline>'' @
     ''RESEARCHER'S DESCRIPTION:\<newline>''\<close>

definition profile_prompt_2 :: string where
  \<open>profile_prompt_2 =
     ''\<newline>'' @
     ''\<newline>''\<close>

definition profile_prompt_3 :: string where
  \<open>profile_prompt_3 =
     ''\<newline>'' @
     ''\<newline>'' @
     ''Extract and infer the following information, returning ONLY valid JSON:\<newline>'' @
     ''\<newline>'' @
     ''{\<newline>'' @
     ''  "expertise_level": "Undergraduate Student" | "PhD Student" | "Postdoc" | "Assistant Prof'' @
     ''essor" | "Associate/Full Professor" | "Industry Researcher",\<newline>'' @
     ''  "research_areas": ["area1", "area2", ...],  // 3-5 broad areas (e.g., "Natural Language '' @
     ''Processing", "Computer Vision")\<newline>'' @
     ''  "specific_topics": ["topic1", "topic2", ...],  // 5-10 specific topics (e.g., "Transform'' @
     ''ers", "Few-shot Learning")\<newline>'' @
     ''  "technical_skills": ["skill1", "skill2", ...],  // Technical skills/tools mentioned (e.g'' @
     ''., "PyTorch", "TensorFlow")\<newline>'' @
     ''  "research_style": "Empirical" | "Theoretical" | "Applied" | "Mixed",  // Infer from desc'' @
     ''ription\<newline>'' @
     ''  "resource_access": "Limited" | "Moderate" | "Extensive",  // Infer from position/institu'' @
     ''tion\<newline>'' @
     ''  "publication_count": 0,  // Estimate if mentioned, otherwise 0\<newline>'' @
     ''  "h_index": 0,  // Estimate if mentioned, otherwise 0\<newline>'' @
     ''  "novelty_preference": 0.5,  // 0-1, infer willingness to pursue novel/risky ideas\<newline>'' @
     ''  "doability_preference": 0.7  // 0-1, infer preference for practical/doable projects\<newline>'' @
     ''}\<newline>'' @
     ''\<newline>'' @
     ''GUIDELINES:\<newline>'' @
     ''- For research_areas: Extract broad fields like "Machine Learning", "Bioinformatics", "Rob'' @
     ''otics"\<newline>'' @
     ''- For specific_topics: Extract specific methods, models, or subfields mentioned\<newline>'' @
     ''- For technical_skills: Include frameworks, languages, tools explicitly mentioned\<newline>'' @
     ''- For research_style:\<newline>'' @
     ''  * "Empirical": Focus on experiments, datasets, benchmarks\<newline>'' @
     ''  * "Theoretical": Focus on proofs, algorithms, mathematical foundations\<newline>'' @
     ''  * "Applied": Focus on real-world applications, systems\<newline>'' @
     ''  * "Mixed": Combination of above\<newline>'' @
     ''- For resource_access:\<newline>'' @
     ''  * "Limited": Undergrad/early PhD, no mention of compute resources\<newline>'' @
     ''  * "Moderate": PhD student/postdoc at known institution\<newline>'' @
     ''  * "Extensive": Professor, industry researcher, mentions large compute\<newline>'' @
     ''- For novelty_preference: Higher if they mention "novel", "innovative", "breakthrough"; lo'' @
     ''wer if they mention "practical", "incremental"\<newline>'' @
     ''- For doability_preference: Higher if they mention "feasible", "practical", "implementable'' @
     ''"; lower if they're open to ambitious projects\<newline>'' @
     ''\<newline>'' @
     ''Return ONLY the JSON object, no other text.''\<close>

definition profile_prompt :: "string \<Rightarrow> string option \<Rightarrow> string" where
  "profile_prompt description_text experience_level =
     profile_prompt_1 @ description_text @ profile_prompt_2
       @ (case experience_level of
            None \<Rightarrow> []
          | Some level \<Rightarrow> if level \<noteq> [] then ''STATED EXPERIENCE LEVEL: '' @ level else [])
       @ profile_prompt_3"

definition default_profile :: "string option \<Rightarrow> json" where
  "default_profile experience_level =
     JObj [(''expertise_level'',
              JStr (case experience_level of
                      None \<Rightarrow> ''PhD Student''
                    | Some level \<Rightarrow> if level \<noteq> [] then level else ''PhD Student'')),
           (''research_areas'', JArr [JStr ''Machine Learning'']),
           (''specific_topics'', JArr []),
           (''technical_skills'', JArr []),
           (''research_style'', JStr ''Mixed''),
           (''resource_access'', JStr ''Moderate''),
           (''publication_count'', JInt 0),
           (''h_index'', JInt 0),
           (''novelty_preference'', JFloat 0.5),
           (''doability_preference'', JFloat 0.7)]"

text \<open>\<open>d[key] = value\<close>: an object is updated in place, any other value raises.\<close>

definition set_item :: "json \<Rightarrow> string \<Rightarrow> json \<Rightarrow> error + json" where
  "set_item j k v =
     (case j of
        JObj kvs \<Rightarrow> Inr (JObj (AList.update k v kvs))
      | _ \<Rightarrow> Inl (TypeError ''item assignment''))"

text \<open>
  \<open>ProfilerAgent.analyze_description\<close>. Everything after the prompt is inside the \<open>try\<close>
  block, whose handler returns the default profile.
\<close>

definition analyze_description :: "world \<Rightarrow> string \<Rightarrow> string option \<Rightarrow> st \<Rightarrow> json \<times> st" where
  "analyze_description w description_text experience_level s =
     (case model_generate w (profile_prompt description_text experience_level) s of
        (GenerateRaises msg, s1) \<Rightarrow> (default_profile experience_level, s1)
      | (ResponseText content, s1) \<Rightarrow>
          (let json_start = find_char CHR ''{'' content;
               json_end = rfind_char CHR ''}'' content + 1
           in if json_start \<ge> 0 \<and> json_end > json_start
              then (case json_loads w (slice content json_start json_end) of
                      None \<Rightarrow> (default_profile experience_level, s1)
                    | Some profile \<Rightarrow>
                        (case experience_level of
                           None \<Rightarrow> (profile, s1)
                         | Some level \<Rightarrow>
                             if level \<noteq> []
                             then (case set_item profile ''expertise_level'' (JStr level) of
                                     Inl e \<Rightarrow> (default_profile experience_level, s1)
                                   | Inr profile' \<Rightarrow> (profile', s1))
                             else (profile, s1)))
              else (default_profile experience_level, s1)))"

section \<open>Jobs and the two phases\<close>

text \<open>
  The rows the two phases read and write. The reader's output is the dictionary of
  \<open>ReaderAgent.analyze_paper\<close>, of which the phases read the keys \<open>summary\<close>,
  \<open>concepts\<close> and \<open>ideas\<close>. The references of a research idea are kept with the idea
  they belong to.
\<close>

record reader_output =
  ro_summary :: "string option"
  ro_concepts :: "string list option"
  ro_ideas :: "idea list option"

record analysis =
  paper_id :: string
  selected_topics :: "string list option"
  user_profile_snapshot :: "json option"
  reader_output :: "reader_output option"
  searcher_output :: "research_result option"
  status :: string
  progress :: int
  error_message :: "string option"
  completed_at :: "nat option"

record paper_row =
  pdf_filename :: string
  user_id :: "string option"

record user_row =
  u_profile :: "json option"

record flattened_idea =
  f_title :: string
  f_description :: string
  f_rationale :: string
  f_novelty_score :: "json option"
  f_doability_score :: "json option"
  f_topic_match_score :: real
  f_composite_score :: real
  f_novelty_assessment :: json
  f_doability_assessment :: json
  f_literature_synthesis :: json

record reference_row =
  ref_title :: string
  ref_authors :: "string list"
  ref_year :: "int option"
  ref_venue :: string
  ref_abstract :: string
  ref_url :: string
  ref_citation_count :: int
  ref_relevance_category :: string
  ref_summary :: string

record research_idea_row =
  ri_analysis_id :: string
  ri_rank :: nat
  ri_fields :: flattened_idea
  ri_references :: "reference_row list"

record db =
  analyses :: "string \<rightharpoonup> analysis"
  paper_rows :: "string \<rightharpoonup> paper_row"
  user_rows :: "string \<rightharpoonup> user_row"
  research_idea_rows :: "research_idea_row list"

text \<open>
  The collaborators of the phases: the services of the scoring component, the PDF text
  extraction (which raises, or returns a text or nothing), the reader agent (which raises or
  returns its output) and the clock. Queries and commits of the database are taken not to
  raise.
\<close>

record app_world =
  services :: world
  extract_text_from_pdf :: "string \<Rightarrow> error + string option"
  analyze_paper :: "string \<Rightarrow> string list \<Rightarrow> error + reader_output"
  utcnow :: "nat \<Rightarrow> nat"

datatype body =
    ErrorBody string
  | InvalidIndexBody json int
  | ReadBody string "string option" "string list" "idea list"
  | SearchBody string "flattened_idea list"

record read_request =
  rr_job_id :: "string option"
  rr_topics :: "string list"

text \<open>
  The value under \<open>selected_ideas\<close> in the body of a search request is whatever JSON the
  client sent; \<open>None\<close> is an absent key, for which \<open>get\<close> gives the empty list.
\<close>

record search_request =
  sr_job_id :: "string option"
  sr_selected_ideas :: "json option"

definition str_error :: "error \<Rightarrow> string" where
  "str_error e =
     (case e of
        KeyError k \<Rightarrow> [CHR 0x27] @ k @ [CHR 0x27]
      | TypeError m \<Rightarrow> m
      | ValueError m \<Rightarrow> m
      | Failure m \<Rightarrow> m)"

definition commit :: "string \<Rightarrow> analysis \<Rightarrow> db \<Rightarrow> db" where
  "commit job a d = d\<lparr>analyses := (analyses d)(job \<mapsto> a)\<rparr>"

text \<open>
  The handler of both phases: after the rollback the job is read again from the committed
  rows, put in the error state with the message, and committed.
\<close>

definition mark_error :: "string \<Rightarrow> string \<Rightarrow> db \<Rightarrow> db" where
  "mark_error job msg d =
     (case analyses d job of
        None \<Rightarrow> d
      | Some a \<Rightarrow> commit job (a\<lparr>status := ''error'', error_message := Some msg\<rparr>) d)"

definition json_truthy :: "json \<Rightarrow> bool" where
  "json_truthy j =
     (case j of
        JNull \<Rightarrow> False
      | JBool b \<Rightarrow> b
      | JInt i \<Rightarrow> i \<noteq> 0
      | JFloat r \<Rightarrow> r \<noteq> 0
      | JStr t \<Rightarrow> t \<noteq> []
      | JArr xs \<Rightarrow> xs \<noteq> []
      | JObj kvs \<Rightarrow> kvs \<noteq> [])"

definition profile_snapshot :: "db \<Rightarrow> paper_row \<Rightarrow> json option" where
  "profile_snapshot d paper =
     (case user_id paper of
        None \<Rightarrow> None
      | Some u \<Rightarrow>
          if u = [] then None
          else (case user_rows d u of
                  None \<Rightarrow> None
                | Some user \<Rightarrow>
                    (case u_profile user of
                       None \<Rightarrow> None
                     | Some p \<Rightarrow> if json_truthy p then Some p else None)))"

text \<open>\<open>analyze_paper_read\<close>, the handler of \<open>/api/analyze/read\<close>.\<close>

definition analyze_paper_read ::
  "app_world \<Rightarrow> read_request \<Rightarrow> db \<Rightarrow> st \<Rightarrow> (nat \<times> body) \<times> db \<times> st" where
  "analyze_paper_read w req d s =
     (if \<not> truthy (rr_job_id req) then ((400, ErrorBody ''job_id is required''), d, s)
      else
        let job = or_default [] (rr_job_id req); topics = rr_topics req in
        (case analyses d job of
           None \<Rightarrow> ((404, ErrorBody ''Analysis not found''), d, s)
         | Some a \<Rightarrow>
             if topics = [] then ((400, ErrorBody ''At least one topic must be selected''), d, s)
             else
               let a1 = a\<lparr>selected_topics := Some topics, status := ''parsing'', progress := 20\<rparr> in
               (case paper_rows d (paper_id a1) of
                  None \<Rightarrow>
                    ((500, ErrorBody ''Paper not found''), mark_error job ''Paper not found'' d, s)
                | Some paper \<Rightarrow>
                    let a2 = (case profile_snapshot d paper of
                                None \<Rightarrow> a1
                              | Some p \<Rightarrow> a1\<lparr>user_profile_snapshot := Some p\<rparr>);
                        d1 = commit job a2 d;
                        filepath = ''uploads/'' @ pdf_filename paper;
                        s1 = s\<lparr>trace := trace s @ [ExtractText filepath]\<rparr>
                    in
                    (case extract_text_from_pdf w filepath of
                       Inl e \<Rightarrow> ((500, ErrorBody (str_error e)), mark_error job (str_error e) d1, s1)
                     | Inr extracted \<Rightarrow>
                         if \<not> truthy extracted
                         then ((500, ErrorBody ''Failed to extract text from PDF''),
                               commit job (a2\<lparr>status := ''error'',
                                              error_message := Some ''Failed to extract text from PDF''\<rparr>) d1,
                               s1)
                         else
                           let paper_text = or_default [] extracted;
                               a3 = a2\<lparr>status := ''reading'', progress := 40\<rparr>;
                               d2 = commit job a3 d1;
                               s2 = s1\<lparr>trace := trace s1 @ [AnalyzePaper paper_text topics]\<rparr>
                           in
                           (case analyze_paper w paper_text topics of
                              Inl e \<Rightarrow>
                                ((500, ErrorBody (str_error e)), mark_error job (str_error e) d2, s2)
                            | Inr reader_results \<Rightarrow>
                                ((200, ReadBody job (ro_summary reader_results)
                                         (or_default [] (ro_concepts reader_results))
                                         (or_default [] (ro_ideas reader_results))),
                                 commit job (a3\<lparr>reader_output := Some reader_results,
                                                status := ''ideas_ready'', progress := 60\<rparr>) d2,
                                 s2))))))"

text \<open>
  \<open>len(x)\<close> and the iteration over \<open>x\<close> for a parsed JSON value: strings, arrays and
  objects have a length and are iterated (an object over its keys); the other values raise
  \<open>TypeError\<close>.
\<close>

definition py_len :: "json \<Rightarrow> error + nat" where
  "py_len j =
     (case j of
        JStr t \<Rightarrow> Inr (length t)
      | JArr xs \<Rightarrow> Inr (length xs)
      | JObj kvs \<Rightarrow> Inr (length kvs)
      | _ \<Rightarrow> Inl (TypeError ''object has no len()''))"

definition py_iter :: "json \<Rightarrow> error + json list" where
  "py_iter j =
     (case j of
        JStr t \<Rightarrow> Inr (map (\<lambda>c. JStr [c]) t)
      | JArr xs \<Rightarrow> Inr xs
      | JObj kvs \<Rightarrow> Inr (map (\<lambda>kv. JStr (fst kv)) kvs)
      | _ \<Rightarrow> Inl (TypeError ''object is not iterable''))"

text \<open>
  \<open>0 <= idx < len(all_ideas)\<close>: numbers (booleans among them) are compared, any other
  value raises \<open>TypeError\<close>.
\<close>

definition index_in_range :: "idea list \<Rightarrow> json \<Rightarrow> error + bool" where
  "index_in_range all_ideas idx =
     (case idx of
        JInt i \<Rightarrow> Inr (0 \<le> i \<and> i < int (length all_ideas))
      | JBool b \<Rightarrow> Inr ((if b then 1 else 0) < length all_ideas)
      | JFloat r \<Rightarrow> Inr (0 \<le> r \<and> r < real (length all_ideas))
      | _ \<Rightarrow> Inl (TypeError ''not supported between instances''))"

text \<open>
  \<open>all_ideas[idx]\<close>, which the loop reaches only for an index in range: an integer or a
  boolean picks the element, any other value raises \<open>TypeError\<close>.
\<close>

definition list_item :: "idea list \<Rightarrow> json \<Rightarrow> error + idea" where
  "list_item all_ideas idx =
     (case idx of
        JInt i \<Rightarrow>
          if 0 \<le> i \<and> i < int (length all_ideas) then Inr (all_ideas ! nat i)
          else Inl (Failure ''list index out of range'')
      | JBool b \<Rightarrow>
          if (if b then 1 else 0) < length all_ideas then Inr (all_ideas ! (if b then 1 else 0))
          else Inl (Failure ''list index out of range'')
      | _ \<Rightarrow> Inl (TypeError ''list indices must be integers or slices''))"

text \<open>
  The loop of \<open>analyze_paper_search\<close> that collects the selected ideas: it ends with the
  ideas, or at the first index out of range with that index, or with the exception that the
  comparison or the indexing raised.
\<close>

datatype selection = Selected "idea list" | InvalidIndex json | SelectionRaises error

fun select_ideas :: "idea list \<Rightarrow> json list \<Rightarrow> selection" where
  "select_ideas all_ideas [] = Selected []"
| "select_ideas all_ideas (idx # rest) =
     (case index_in_range all_ideas idx of
        Inl e \<Rightarrow> SelectionRaises e
      | Inr False \<Rightarrow> InvalidIndex idx
      | Inr True \<Rightarrow>
          (case list_item all_ideas idx of
             Inl e \<Rightarrow> SelectionRaises e
           | Inr picked \<Rightarrow>
               (case select_ideas all_ideas rest of
                  Selected selected \<Rightarrow> Selected (picked # selected)
                | InvalidIndex bad \<Rightarrow> InvalidIndex bad
                | SelectionRaises e \<Rightarrow> SelectionRaises e)))"

text \<open>\<open>d.get(key)\<close> on a parsed JSON value: only an object has the method.\<close>

definition json_get :: "json \<Rightarrow> string \<Rightarrow> error + json option" where
  "json_get j k =
     (case j of
        JObj kvs \<Rightarrow> Inr (map_of kvs k)
      | _ \<Rightarrow> Inl (Failure ''object has no attribute get''))"

definition flatten_idea :: "scored_idea \<Rightarrow> error + flattened_idea" where
  "flatten_idea idea_data =
     (case json_get (novelty_assessment idea_data) ''novelty_score'' of
        Inl e \<Rightarrow> Inl e
      | Inr ns \<Rightarrow>
          (case json_get (doability_assessment idea_data) ''doability_score'' of
             Inl e \<Rightarrow> Inl e
           | Inr ds \<Rightarrow>
               Inr \<lparr>f_title = title (si_idea idea_data),
                    f_description = or_default [] (description (si_idea idea_data)),
                    f_rationale = or_default [] (rationale (si_idea idea_data)),
                    f_novelty_score = ns,
                    f_doability_score = ds,
                    f_topic_match_score = topic_match_score idea_data,
                    f_composite_score = composite_score idea_data,
                    f_novelty_assessment = novelty_assessment idea_data,
                    f_doability_assessment = doability_assessment idea_data,
                    f_literature_synthesis = or_default (JObj []) (literature_synthesis idea_data)\<rparr>))"

definition reference_of :: "paper \<Rightarrow> reference_row" where
  "reference_of ref_data =
     \<lparr>ref_title = p_title ref_data, ref_authors = p_authors ref_data, ref_year = p_year ref_data,
      ref_venue = [], ref_abstract = p_abstract ref_data, ref_url = p_url ref_data,
      ref_citation_count = p_citations ref_data, ref_relevance_category = [], ref_summary = []\<rparr>"

fun store_ideas ::
  "string \<Rightarrow> nat \<Rightarrow> scored_idea list \<Rightarrow> error + (flattened_idea list \<times> research_idea_row list)" where
  "store_ideas job rnk [] = Inr ([], [])"
| "store_ideas job rnk (idea_data # rest) =
     (case flatten_idea idea_data of
        Inl e \<Rightarrow> Inl e
      | Inr flat \<Rightarrow>
          (case store_ideas job (rnk + 1) rest of
             Inl e \<Rightarrow> Inl e
           | Inr (flats, rows) \<Rightarrow>
               Inr (flat # flats,
                    \<lparr>ri_analysis_id = job, ri_rank = rnk, ri_fields = flat,
                      ri_references = map reference_of (si_papers idea_data)\<rparr> # rows)))"

text \<open>
  \<open>analyze_paper_search\<close>, the handler of \<open>/api/analyze/search\<close>. An exception
  raised anywhere in it goes to the handler at its end, which marks the job as failed and
  answers 500.
\<close>

definition analyze_paper_search ::
  "app_world \<Rightarrow> search_request \<Rightarrow> db \<Rightarrow> st \<Rightarrow> (nat \<times> body) \<times> db \<times> st" where
  "analyze_paper_search w req d s =
     (if \<not> truthy (sr_job_id req) then ((400, ErrorBody ''job_id is required''), d, s)
      else
        let job = or_default [] (sr_job_id req);
            selected_idea_indices = or_default (JArr []) (sr_selected_ideas req)
        in
        if \<not> json_truthy selected_idea_indices
        then ((400, ErrorBody ''Please select exactly 3 ideas''), d, s)
        else
          (case py_len selected_idea_indices of
             Inl e \<Rightarrow> ((500, ErrorBody (str_error e)), mark_error job (str_error e) d, s)
           | Inr n \<Rightarrow>
               if n \<noteq> 3 then ((400, ErrorBody ''Please select exactly 3 ideas''), d, s)
               else
        (case analyses d job of
           None \<Rightarrow> ((404, ErrorBody ''Analysis not found''), d, s)
         | Some a \<Rightarrow>
             if status a \<noteq> ''ideas_ready''
             then ((400, ErrorBody (''Analysis is not ready for search. Current status: '' @ status a)),
                   d, s)
             else
               (case reader_output a of
                  None \<Rightarrow>
                    ((400, ErrorBody ''No ideas found. Please run /api/analyze/read first''), d, s)
                | Some ro \<Rightarrow>
                    (case ro_ideas ro of
                       None \<Rightarrow>
                         ((400, ErrorBody ''No ideas found. Please run /api/analyze/read first''), d, s)
                     | Some all_ideas \<Rightarrow>
                         (case py_iter selected_idea_indices of
                            Inl e \<Rightarrow>
                              ((500, ErrorBody (str_error e)), mark_error job (str_error e) d, s)
                          | Inr indices \<Rightarrow>
                         (case select_ideas all_ideas indices of
                            SelectionRaises e \<Rightarrow>
                              ((500, ErrorBody (str_error e)), mark_error job (str_error e) d, s)
                          | InvalidIndex idx \<Rightarrow>
                              ((400, InvalidIndexBody idx (int (length all_ideas) - 1)), d, s)
                          | Selected selected_ideas \<Rightarrow>
                              let a1 = a\<lparr>status := ''searching'', progress := 70\<rparr>;
                                  d1 = commit job a1 d
                              in
                              (case research_ideas (services w) selected_ideas
                                      (or_default [] (selected_topics a1)) s of
                                 (Inl e, s1) \<Rightarrow>
                                   ((500, ErrorBody (str_error e)), mark_error job (str_error e) d1, s1)
                               | (Inr final_results, s1) \<Rightarrow>
                                   (case store_ideas job 1 (top_ideas final_results) of
                                      Inl e \<Rightarrow>
                                        ((500, ErrorBody (str_error e)),
                                         mark_error job (str_error e) d1, s1)
                                    | Inr (flattened_ideas, rows) \<Rightarrow>
                                        ((200, SearchBody job flattened_ideas),
                                         (commit job
                                            (a1\<lparr>searcher_output := Some final_results,
                                                 status := ''complete'', progress := 100,
                                                 completed_at := Some (utcnow w (length (trace s1)))\<rparr>)
                                            d1)
                                           \<lparr>research_idea_rows := research_idea_rows d1 @ rows\<rparr>,
                                         s1))))))))))"

text \<open>The candidate ideas stored with a job.\<close>

definition stored_ideas :: "analysis \<Rightarrow> idea list" where
  "stored_ideas a =
     (case reader_output a of None \<Rightarrow> [] | Some ro \<Rightarrow> or_default [] (ro_ideas ro))"

section \<open>Properties the results are stated with, and example inputs\<close>

text \<open>
  A scored idea is consistent when its two assessments carry numeric scores, its topic-match
  score is the one computed for its idea, and its composite score is the weighted sum.
\<close>

definition score_consistent :: "unicode_tables \<Rightarrow> string list \<Rightarrow> scored_idea \<Rightarrow> bool" where
  "score_consistent u user_topics item =
     (\<exists>n d. score_of (novelty_assessment item) ''novelty_score'' = Inr n
          \<and> score_of (doability_assessment item) ''doability_score'' = Inr d
          \<and> topic_match_score item = calculate_topic_match u (si_idea item) user_topics
          \<and> composite_score item = 0.3 * n + 0.4 * d + 0.3 * topic_match_score item)"

text \<open>
  Tables for texts in ASCII, on which every table agrees: lower-casing maps the letters A to
  Z, and the whitespace characters are the six of ASCII and the four separators below them.
\<close>

definition ascii_lower_char :: "char \<Rightarrow> char" where
  "ascii_lower_char c =
     (case map_of (zip ''ABCDEFGHIJKLMNOPQRSTUVWXYZ'' ''abcdefghijklmnopqrstuvwxyz'') c of
        None \<Rightarrow> c
      | Some l \<Rightarrow> l)"

definition ascii_isspace :: "char \<Rightarrow> bool" where
  "ascii_isspace c =
     (c \<in> set [CHR 0x09, CHR 0x0A, CHR 0x0B, CHR 0x0C, CHR 0x0D,
                CHR 0x1C, CHR 0x1D, CHR 0x1E, CHR 0x1F, CHR 0x20])"

definition ascii_tables :: unicode_tables where
  "ascii_tables = \<lparr>str_lower = map ascii_lower_char, str_isspace = ascii_isspace\<rparr>"

definition example_idea :: "string \<Rightarrow> idea" where
  "example_idea t = \<lparr>title = t, description = Some ''An idea'', rationale = None, topic_tags = None\<rparr>"

definition example_item :: "string \<Rightarrow> real \<Rightarrow> scored_idea" where
  "example_item t c =
     \<lparr>si_idea = example_idea t, si_papers = [], novelty_assessment = JNull,
      doability_assessment = JNull, topic_match_score = 3, composite_score = c,
      literature_synthesis = None\<rparr>"

text \<open>
  A world whose services answer every call: the search finds nothing, and every assessment
  parses to novelty 4 and doability 5.
\<close>

definition example_world :: world where
  "example_world =
     \<lparr>unicode = ascii_tables,
      http_get = (\<lambda>n query limit. Response 200 (Some (Some []))),
      generate_content = (\<lambda>n prompt. ResponseText ''{}''),
      json_loads = (\<lambda>text. Some (JObj [(''novelty_score'', JInt 4), (''doability_score'', JInt 5)]))\<rparr>"

definition example_raw_papers :: "raw_paper list" where
  "example_raw_papers =
     [\<lparr>r_title = Some ''A survey'', r_abstract = Some ''We survey.'', r_year = Some 2021,
        r_citationCount = Some 7, r_authors = Some [Some ''Ada''], r_url = None\<rparr>,
      \<lparr>r_title = Some ''No abstract'', r_abstract = None, r_year = None,
        r_citationCount = None, r_authors = None, r_url = None\<rparr>]"

text \<open>
  A world whose search service answers the first \<open>k\<close> requests with status 429 and the
  later ones with two papers, one of them without an abstract; its text-analysis service
  always raises.
\<close>

definition rate_limited_world :: "nat \<Rightarrow> world" where
  "rate_limited_world k =
     \<lparr>unicode = ascii_tables,
      http_get = (\<lambda>n query limit.
         if n < k then Response 429 None else Response 200 (Some (Some example_raw_papers))),
      generate_content = (\<lambda>n prompt. GenerateRaises ''unavailable''),
      json_loads = (\<lambda>text. None)\<rparr>"

text \<open>A world whose text-analysis service answers with prose that does not parse.\<close>

definition garbled_world :: world where
  "garbled_world =
     \<lparr>unicode = ascii_tables,
      http_get = (\<lambda>n query limit. Response 200 (Some (Some []))),
      generate_content = (\<lambda>n prompt. ResponseText ''I cannot help with that.''),
      json_loads = (\<lambda>text. None)\<rparr>"

text \<open>
  A world whose text-analysis service answers every prompt with the text \<open>3\<close>, which is
  valid JSON (the number 3) and holds no object.
\<close>

definition scalar_reply_world :: world where
  "scalar_reply_world =
     \<lparr>unicode = ascii_tables,
      http_get = (\<lambda>n query limit. Response 200 (Some (Some []))),
      generate_content = (\<lambda>n prompt. ResponseText ''3''),
      json_loads = (\<lambda>text. if text = ''3'' then Some (JInt 3) else None)\<rparr>"

definition start :: st where
  "start = \<lparr>n_http = 0, n_llm = 0, trace = []\<rparr>"

text \<open>
  A job with four stored candidate ideas, in a given status and at a given progress, with its
  paper; and collaborators that extract a text and read it into a new output.
\<close>

definition example_reader_output :: reader_output where
  "example_reader_output =
     \<lparr>ro_summary = Some ''A paper'', ro_concepts = Some [''attention''],
      ro_ideas = Some [example_idea ''First'', example_idea ''Second'', example_idea ''Third'',
                       example_idea ''Fourth'']\<rparr>"

definition fresh_reader_output :: reader_output where
  "fresh_reader_output =
     \<lparr>ro_summary = Some ''Read again'', ro_concepts = Some [], ro_ideas = Some [example_idea ''Fifth'']\<rparr>"

definition example_analysis :: "string \<Rightarrow> int \<Rightarrow> analysis" where
  "example_analysis st pr =
     \<lparr>paper_id = ''paper'', selected_topics = Some [''nlp''], user_profile_snapshot = None,
      reader_output = Some example_reader_output, searcher_output = None, status = st,
      progress = pr, error_message = None, completed_at = None\<rparr>"

definition example_db :: "string \<Rightarrow> int \<Rightarrow> db" where
  "example_db st pr =
     \<lparr>analyses = [''job'' \<mapsto> example_analysis st pr],
      paper_rows = [''paper'' \<mapsto> \<lparr>pdf_filename = ''paper.pdf'', user_id = None\<rparr>],
      user_rows = Map.empty, research_idea_rows = []\<rparr>"

definition example_app :: app_world where
  "example_app =
     \<lparr>services = example_world,
      extract_text_from_pdf = (\<lambda>path. Inr (Some ''Attention is all you need'')),
      analyze_paper = (\<lambda>paper_text topics. Inr fresh_reader_output),
      utcnow = (\<lambda>n. n)\<rparr>"

section \<open>Topic match: results\<close>

lemma py_in_sublist: "py_in a b = sublist a b"
  by (induction b) (simp_all add: sublist_Cons_right)

lemma matches_tag_hits:
  "length (filter (\<lambda>tag. list_ex (\<lambda>topic. py_in topic tag \<or> py_in tag topic)
                                   (map (str_lower u) topics))
                  (map (str_lower u) tags)) = tag_hits_spec u tags topics"
  by (simp add: tag_hits_spec_def py_in_sublist list_ex_iff filter_map o_def)

text \<open>
  C2. Whatever the Unicode tables of the runtime: the topic-match score is 3 when no user
  topic is given, whatever the tags; otherwise 2.5 when the idea has no tags; otherwise
  min (m / max (number of topics, 1) * 5, 5), where m counts the tags that, after
  \<open>str.lower\<close>, contain or are contained in a lower-cased user topic. With tables that
  lower-case "Transformers" to "transformers" and leave "transformers" as it is, the tag
  "transformers" against the topic "Transformers" scores 5.
\<close>

theorem topic_match_formula:
  "calculate_topic_match u idea user_topics =
     (if user_topics = [] then 3
      else if tags_of idea = [] then 2.5
      else min (real (tag_hits_spec u (tags_of idea) user_topics)
                  / real (max (length user_topics) 1) * 5) 5)
   \<and> (str_lower u ''Transformers'' = ''transformers''
        \<and> str_lower u ''transformers'' = ''transformers'' \<longrightarrow>
      calculate_topic_match u (idea\<lparr>topic_tags := Some [''transformers'']\<rparr>) [''Transformers''] = 5)"
proof
  show "calculate_topic_match u idea user_topics =
     (if user_topics = [] then 3
      else if tags_of idea = [] then 2.5
      else min (real (tag_hits_spec u (tags_of idea) user_topics)
                  / real (max (length user_topics) 1) * 5) 5)"
    unfolding calculate_topic_match_def tags_of_def Let_def matches_tag_hits
    by simp
  show "str_lower u ''Transformers'' = ''transformers''
        \<and> str_lower u ''transformers'' = ''transformers'' \<longrightarrow>
      calculate_topic_match u (idea\<lparr>topic_tags := Some [''transformers'']\<rparr>) [''Transformers''] = 5"
    by (simp add: calculate_topic_match_def)
qed

theorem topic_match_formula_witness:
  "calculate_topic_match ascii_tables
     \<lparr>title = ''Sparse attention'', description = None, rationale = None,
       topic_tags = Some [''Vision Transformers'', ''pruning'']\<rparr> [''transformers'', ''Robotics''] = 2.5
   \<and> calculate_topic_match ascii_tables
     \<lparr>title = ''Sparse attention'', description = None, rationale = None,
       topic_tags = Some [''transformers'']\<rparr> [''Transformers''] = 5"
  using topic_match_formula [of ascii_tables "\<lparr>title = ''Sparse attention'', description = None,
       rationale = None, topic_tags = Some [''Vision Transformers'', ''pruning'']\<rparr>"
       "[''transformers'', ''Robotics'']"]
  by (simp add: tags_of_def tag_hits_spec_def ascii_tables_def ascii_lower_char_def sublist_code)

section \<open>Literature search: results\<close>

lemma upt_3: "[0..<3] = [0, 1, 2]"
  by (simp add: upt_rec)

lemma search_all_429:
  assumes "\<forall>k<3. \<exists>body. http_get w (n_http s + k) (search_query idea) 20 = Response 429 body"
  shows "search_papers w idea 20 3 s =
       ([], s\<lparr>n_http := n_http s + 3,
              trace := trace s @ [HttpGet (search_query idea) 20, Sleep 2,
                                  HttpGet (search_query idea) 20, Sleep 4,
                                  HttpGet (search_query idea) 20, Sleep 8]\<rparr>)"
proof -
  from assms obtain b0 b1 b2 where
    h0: "http_get w (n_http s) (search_query idea) 20 = Response 429 b0" and
    h1: "http_get w (Suc (n_http s)) (search_query idea) 20 = Response 429 b1" and
    h2: "http_get w (Suc (Suc (n_http s))) (search_query idea) 20 = Response 429 b2"
    by (metis add.right_neutral add_2_eq_Suc' numeral_3_eq_3 lessI less_SucI zero_less_Suc
          add_Suc_right One_nat_def)
  show ?thesis
    by (simp add: search_papers_def upt_3 requests_get_def sleep_def h0 h1 h2)
qed

lemma search_429_429_ok:
  assumes "\<exists>body. http_get w (n_http s) (search_query idea) 20 = Response 429 body"
      and "\<exists>body. http_get w (n_http s + 1) (search_query idea) 20 = Response 429 body"
      and "http_get w (n_http s + 2) (search_query idea) 20 = Response code (Some (Some raw))"
      and "code < 400"
  shows "search_papers w idea 20 3 s =
       (format_papers raw, s\<lparr>n_http := n_http s + 3,
              trace := trace s @ [HttpGet (search_query idea) 20, Sleep 2,
                                  HttpGet (search_query idea) 20, Sleep 4,
                                  HttpGet (search_query idea) 20]\<rparr>)"
  using assms
  by (auto simp add: search_papers_def upt_3 requests_get_def sleep_def or_default_def)

lemma search_attempts_bound:
  "n_http (snd (search_attempts w q l m atts s)) \<le> n_http s + length atts"
proof (induction atts arbitrary: s)
  case Nil
  show ?case by simp
next
  case (Cons a atts)
  have step: "n_http (snd (search_attempts w q l m atts s')) \<le> Suc (n_http s + length atts)"
    if "n_http s' = Suc (n_http s)" for s'
    using Cons.IH [of s'] that by simp
  show ?case
    by (auto simp: requests_get_def sleep_def step
             split: get_outcome.splits request_exn.splits option.splits)
qed

lemma search_papers_attempts: "n_http (snd (search_papers w idea 20 3 s)) \<le> n_http s + 3"
  using search_attempts_bound [of w "search_query idea" 20 3 "[0..<3]" s]
  by (simp add: search_papers_def)

text \<open>
  C6. With the defaults of \<open>_search_papers\<close> (20 results, 3 attempts): when the service
  answers 429 to all three requests, the search sleeps 2, 4 and 8 seconds, one sleep after
  each request, and returns the empty list; when it answers 429 twice and then succeeds, the
  search sleeps 2 and then 4 seconds and returns the papers of the third reply that carry an
  abstract, formatted; and in every world at most three requests are made. The search returns
  a list in every case: it has no error result that could put the job in the error state.
\<close>

theorem search_papers_retry:
  "((\<forall>k<3. \<exists>body. http_get w (n_http s + k) (search_query idea) 20 = Response 429 body) \<longrightarrow>
      search_papers w idea 20 3 s =
        ([], s\<lparr>n_http := n_http s + 3,
               trace := trace s @ [HttpGet (search_query idea) 20, Sleep 2,
                                   HttpGet (search_query idea) 20, Sleep 4,
                                   HttpGet (search_query idea) 20, Sleep 8]\<rparr>))
   \<and> ((\<exists>body. http_get w (n_http s) (search_query idea) 20 = Response 429 body)
        \<and> (\<exists>body. http_get w (n_http s + 1) (search_query idea) 20 = Response 429 body)
        \<and> http_get w (n_http s + 2) (search_query idea) 20 = Response code (Some (Some raw))
        \<and> code < 400 \<longrightarrow>
      search_papers w idea 20 3 s =
        (format_papers raw,
         s\<lparr>n_http := n_http s + 3,
            trace := trace s @ [HttpGet (search_query idea) 20, Sleep 2,
                                HttpGet (search_query idea) 20, Sleep 4,
                                HttpGet (search_query idea) 20]\<rparr>))
   \<and> n_http (snd (search_papers w idea 20 3 s)) \<le> n_http s + 3"
  using search_all_429 [of w s idea] search_429_429_ok [of w s idea code raw]
    search_papers_attempts [of w idea s]
  by blast

theorem search_papers_retry_witness:
  "search_papers (rate_limited_world 3) (example_idea ''Sparse attention'') 20 3 start =
     ([], \<lparr>n_http = 3, n_llm = 0,
           trace = [HttpGet (search_query (example_idea ''Sparse attention'')) 20, Sleep 2,
                    HttpGet (search_query (example_idea ''Sparse attention'')) 20, Sleep 4,
                    HttpGet (search_query (example_idea ''Sparse attention'')) 20, Sleep 8]\<rparr>)
   \<and> search_papers (rate_limited_world 2) (example_idea ''Sparse attention'') 20 3 start =
     ([\<lparr>p_title = ''A survey'', p_abstract = ''We survey.'', p_year = Some 2021, p_citations = 7,
        p_authors = [''Ada''], p_url = []\<rparr>],
      \<lparr>n_http = 3, n_llm = 0,
           trace = [HttpGet (search_query (example_idea ''Sparse attention'')) 20, Sleep 2,
                    HttpGet (search_query (example_idea ''Sparse attention'')) 20, Sleep 4,
                    HttpGet (search_query (example_idea ''Sparse attention'')) 20]\<rparr>)"
  using search_papers_retry [of "rate_limited_world 3" start "example_idea ''Sparse attention''"]
    search_papers_retry [of "rate_limited_world 2" start "example_idea ''Sparse attention''" 200
      example_raw_papers]
  by (simp add: rate_limited_world_def start_def format_papers_def format_paper_def has_abstract_def
        or_default_def example_raw_papers_def)

section \<open>Assessments: results\<close>

lemma assess_novelty_fallback:
  assumes "description idea = Some d"
    and "generate_content w (n_llm s) (novelty_prompt (title idea) d papers) = GenerateRaises msg
         \<or> (\<exists>content. generate_content w (n_llm s) (novelty_prompt (title idea) d papers)
                         = ResponseText content
               \<and> json_loads w (extract_json content) = None)"
  shows "fst (assess_novelty w idea papers s) = Inr novelty_fallback"
  using assms by (auto simp: assess_novelty_def generate_and_parse_def model_generate_def)

lemma assess_doability_fallback:
  assumes "description idea = Some d"
    and "generate_content w (n_llm s) (doability_prompt (title idea) d) = GenerateRaises msg
         \<or> (\<exists>content. generate_content w (n_llm s) (doability_prompt (title idea) d)
                         = ResponseText content
               \<and> json_loads w (extract_json content) = None)"
  shows "fst (assess_doability w idea papers s) = Inr doability_fallback"
  using assms by (auto simp: assess_doability_def generate_and_parse_def model_generate_def)

lemma fallback_scores:
  "score_of novelty_fallback ''novelty_score'' = Inr 3"
  "score_of doability_fallback ''doability_score'' = Inr 3"
  by (simp_all add: score_of_def subscript_def number_of_def novelty_fallback_def
        doability_fallback_def)

text \<open>
  For an idea with a description (so that the prompt can be built and the service is
  called) and any list of papers: when the text-analysis call raises, or \<open>json.loads\<close>
  raises on the text after the extraction of the span, \<open>_assess_novelty\<close> returns the
  object with explored "Unknown", maturity "Unknown", gap "Unable to assess" and novelty
  score 3, and \<open>_assess_doability\<close> returns its fallback object, whose doability score is
  3.
\<close>

lemma assessment_handler:
  "description idea = Some d \<Longrightarrow>
   ((generate_content w (n_llm s) (novelty_prompt (title idea) d papers) = GenerateRaises msg
       \<or> (\<exists>content. generate_content w (n_llm s) (novelty_prompt (title idea) d papers)
                       = ResponseText content
             \<and> json_loads w (extract_json content) = None)) \<longrightarrow>
      fst (assess_novelty w idea papers s) =
        Inr (JObj [(''explored'', JStr ''Unknown''), (''maturity'', JStr ''Unknown''),
                   (''gap'', JStr ''Unable to assess''), (''novelty_score'', JInt 3)]))
   \<and> ((generate_content w (n_llm s) (doability_prompt (title idea) d) = GenerateRaises msg
         \<or> (\<exists>content. generate_content w (n_llm s) (doability_prompt (title idea) d)
                         = ResponseText content
               \<and> json_loads w (extract_json content) = None)) \<longrightarrow>
        fst (assess_doability w idea papers s) = Inr doability_fallback)
   \<and> score_of novelty_fallback ''novelty_score'' = Inr 3
   \<and> score_of doability_fallback ''doability_score'' = Inr 3"
  using assess_novelty_fallback [of idea d w s papers msg]
    assess_doability_fallback [of idea d w s msg papers] fallback_scores
  by (simp add: novelty_fallback_def)

text \<open>
  C7. A reply of the text-analysis service that holds no JSON object is not caught: the
  extraction finds no span and leaves the text as it is, \<open>json.loads\<close> parses the text
  \<open>3\<close> to the number 3, and \<open>_assess_novelty\<close> and \<open>_assess_doability\<close> return
  that number, not their fallback. \<open>research_ideas\<close> then raises \<open>TypeError\<close> when it
  reads the novelty score, so the ranking run is aborted, and the search phase answers 500
  and puts the job in the error state.
\<close>

theorem assessment_without_object_aborts:
  "fst (assess_novelty scalar_reply_world (example_idea ''Sparse attention'') [] start) = Inr (JInt 3)
   \<and> fst (assess_doability scalar_reply_world (example_idea ''Sparse attention'') [] start)
       = Inr (JInt 3)
   \<and> fst (research_ideas scalar_reply_world [example_idea ''Sparse attention''] [] start)
       = Inl (TypeError ''indices'')
   \<and> (let run = analyze_paper_search (example_app\<lparr>services := scalar_reply_world\<rparr>)
                  \<lparr>sr_job_id = Some ''job'',
                    sr_selected_ideas = Some (JArr [JInt 0, JInt 1, JInt 2])\<rparr>
                  (example_db ''ideas_ready'' 60) start
      in fst (fst run) = 500
         \<and> map_option status (analyses (fst (snd run)) ''job'') = Some ''error'')"
  by (simp add: assess_novelty_def assess_doability_def generate_and_parse_def model_generate_def
        extract_json_def rfind_char_def scalar_reply_world_def example_idea_def start_def
        research_ideas_def search_papers_def upt_3 requests_get_def format_papers_def
        or_default_def composite_def score_of_def subscript_def
        analyze_paper_search_def truthy_def json_truthy_def py_len_def py_iter_def
        index_in_range_def list_item_def mark_error_def commit_def str_error_def
        example_app_def example_db_def example_analysis_def example_reader_output_def Let_def)

text \<open>
  C10. \<open>_assess_doability\<close> does not depend on its papers argument: with the same idea,
  world and state, any two paper lists give the same result and the same trace; the one call
  it makes carries the prompt built from the title and the description of the idea; and in
  two worlds that give the same reply and parse alike, the assessments are the same.
\<close>

theorem doability_ignores_papers:
  "assess_doability w idea papers1 s = assess_doability w idea papers2 s
   \<and> (\<forall>d. description idea = Some d \<longrightarrow>
         trace (snd (assess_doability w idea papers1 s)) =
           trace s @ [Generate (doability_prompt (title idea) d)])
   \<and> (generate_content w1 (n_llm s1) = generate_content w2 (n_llm s2)
        \<and> json_loads w1 = json_loads w2 \<longrightarrow>
      fst (assess_doability w1 idea papers1 s1) = fst (assess_doability w2 idea papers2 s2))"
  by (auto simp: assess_doability_def generate_and_parse_def model_generate_def
           split: llm_outcome.splits option.splits)

theorem doability_ignores_papers_witness:
  "trace (snd (assess_doability example_world (example_idea ''Sparse attention'')
          (format_papers example_raw_papers) start)) =
     [Generate (doability_prompt ''Sparse attention'' ''An idea'')]
   \<and> assess_doability example_world (example_idea ''Sparse attention'')
            (format_papers example_raw_papers) start =
     assess_doability example_world (example_idea ''Sparse attention'') [] start"
proof -
  note inst = doability_ignores_papers [of example_world "example_idea ''Sparse attention''"
      "format_papers example_raw_papers" start "[]" example_world start example_world start]
  from inst have same: "assess_doability example_world (example_idea ''Sparse attention'')
            (format_papers example_raw_papers) start =
     assess_doability example_world (example_idea ''Sparse attention'') [] start"
    by (rule conjunct1)
  from inst have "\<forall>d. description (example_idea ''Sparse attention'') = Some d \<longrightarrow>
         trace (snd (assess_doability example_world (example_idea ''Sparse attention'')
                  (format_papers example_raw_papers) start)) =
           trace start @ [Generate (doability_prompt (title (example_idea ''Sparse attention'')) d)]"
    by blast
  then have "trace (snd (assess_doability example_world (example_idea ''Sparse attention'')
          (format_papers example_raw_papers) start)) =
     [Generate (doability_prompt ''Sparse attention'' ''An idea'')]"
    by (simp add: example_idea_def start_def)
  with same show ?thesis by (rule_tac conjI)
qed

section \<open>Selection of the top three: results\<close>

lemma card_inter_code: "card (set xs \<inter> set ys) = length (remdups (filter (\<lambda>x. x \<in> set ys) xs))"
proof -
  have "set xs \<inter> set ys = set (filter (\<lambda>x. x \<in> set ys) xs)" by auto
  then show ?thesis by (simp add: length_remdups_card_conv)
qed

lemma is_diverse_iff:
  "is_diverse u (str_lower u (title (si_idea c))) acc = (\<forall>a \<in> set acc. shares_at_most_3 u c a)"
  by (induction acc) (auto simp: shares_at_most_3_def common_words_def)

lemma diverse_loop_greedy:
  "length acc \<le> 3 \<Longrightarrow> diverse_loop u acc cs = greedy_spec u acc cs"
proof (induction cs arbitrary: acc)
  case Nil
  show ?case by simp
next
  case (Cons c cs)
  show ?case
  proof (cases "length acc = 3")
    case True
    then show ?thesis by simp
  next
    case False
    with Cons.prems have "length (acc @ [c]) \<le> 3" by simp
    with Cons.IH [of "acc @ [c]"] Cons.IH [of acc] Cons.prems False
    show ?thesis by (simp add: is_diverse_iff)
  qed
qed

lemma greedy_spec_length: "length acc \<le> 3 \<Longrightarrow> length (greedy_spec u acc cs) \<le> 3"
  by (induction cs arbitrary: acc) auto

lemma greedy_spec_subset: "set (greedy_spec u acc cs) \<subseteq> set acc \<union> set cs"
proof (induction cs arbitrary: acc)
  case Nil
  show ?case by simp
next
  case (Cons c cs)
  show ?case
    using Cons.IH [of "acc @ [c]"] Cons.IH [of acc] by auto
qed

lemma select_subset: "set (select_diverse_top_3 u xs) \<subseteq> set xs"
proof (cases xs)
  case Nil
  then show ?thesis by (simp add: select_diverse_top_3_def)
next
  case (Cons x rest)
  have "set (diverse_loop u [x] rest) \<subseteq> set xs"
    using greedy_spec_subset [of u "[x]" rest] by (simp add: Cons diverse_loop_greedy)
  moreover have "set (take 3 xs) \<subseteq> set xs" by (rule set_take_subset)
  ultimately show ?thesis
    by (auto simp: Cons select_diverse_top_3_def Let_def)
qed

text \<open>
  C3. Whatever the Unicode tables of the runtime, by which titles are lower-cased and cut
  into words: \<open>_select_diverse_top_3\<close> returns its argument when it has at most 3
  elements. Otherwise it runs the greedy pass of the specification from the first element
  over the rest, and returns the first 3 elements of its argument when that pass accepted
  fewer than 3, and what the pass accepted otherwise. The result has 3 elements, or all of
  them when there are fewer.
\<close>

theorem select_diverse_top_3_greedy:
  "(length xs \<le> 3 \<longrightarrow> select_diverse_top_3 u xs = xs)
   \<and> (length xs > 3 \<longrightarrow>
        select_diverse_top_3 u xs =
          (if length (greedy_spec u [hd xs] (tl xs)) < 3 then take 3 xs
           else greedy_spec u [hd xs] (tl xs)))
   \<and> length (select_diverse_top_3 u xs) = min 3 (length xs)"
proof (cases xs)
  case Nil
  then show ?thesis by (simp add: select_diverse_top_3_def)
next
  case (Cons x rest)
  have eq: "diverse_loop u [x] rest = greedy_spec u [x] rest"
    by (rule diverse_loop_greedy) simp
  have len: "length (greedy_spec u [x] rest) \<le> 3"
    by (rule greedy_spec_length) simp
  show ?thesis
    using len by (auto simp: Cons select_diverse_top_3_def eq Let_def)
qed

theorem select_diverse_top_3_greedy_witness:
  "select_diverse_top_3 ascii_tables
     [example_item ''Sparse attention for long documents'' 4.5,
      example_item ''Sparse Attention for long videos'' 4.4,
      example_item ''Graph networks for molecules'' 4.1,
      example_item ''Contrastive speech encoders'' 3.9,
      example_item ''Curriculum learning'' 3] =
     [example_item ''Sparse attention for long documents'' 4.5,
      example_item ''Graph networks for molecules'' 4.1,
      example_item ''Contrastive speech encoders'' 3.9]
   \<and> select_diverse_top_3 ascii_tables
     [example_item ''one two three four a'' 4, example_item ''one two three four b'' 3,
      example_item ''one two three four c'' 2, example_item ''one two three four d'' 1] =
     [example_item ''one two three four a'' 4, example_item ''one two three four b'' 3,
      example_item ''one two three four c'' 2]
   \<and> select_diverse_top_3 ascii_tables [example_item ''one'' 4, example_item ''one'' 3] =
     [example_item ''one'' 4, example_item ''one'' 3]"
  using select_diverse_top_3_greedy
      [of "[example_item ''Sparse attention for long documents'' 4.5,
            example_item ''Sparse Attention for long videos'' 4.4,
            example_item ''Graph networks for molecules'' 4.1,
            example_item ''Contrastive speech encoders'' 3.9,
            example_item ''Curriculum learning'' 3]" ascii_tables]
    select_diverse_top_3_greedy
      [of "[example_item ''one two three four a'' 4, example_item ''one two three four b'' 3,
            example_item ''one two three four c'' 2, example_item ''one two three four d'' 1]"
          ascii_tables]
    select_diverse_top_3_greedy [of "[example_item ''one'' 4, example_item ''one'' 3]" ascii_tables]
  by (simp add: shares_at_most_3_def example_item_def example_idea_def card_inter_code
        py_split_def ascii_tables_def ascii_lower_char_def ascii_isspace_def)

section \<open>Composite score: results\<close>

lemma composite_Inr:
  "composite nov doa tm = Inr c \<Longrightarrow>
     \<exists>n d. score_of nov ''novelty_score'' = Inr n \<and> score_of doa ''doability_score'' = Inr d
          \<and> c = 0.3 * n + 0.4 * d + 0.3 * tm"
  by (auto simp: composite_def split: sum.splits)

lemma score_ideas_consistent:
  "score_ideas w topics ideas acc s = (Inr out, s') \<Longrightarrow>
   \<forall>x \<in> set acc. score_consistent (unicode w) topics x \<Longrightarrow> \<forall>x \<in> set out. score_consistent (unicode w) topics x"
proof (induction ideas arbitrary: acc s)
  case Nil
  then show ?case by simp
next
  case (Cons idea rest)
  obtain papers s1 where sp: "search_papers w idea 20 3 s = (papers, s1)"
    by (cases "search_papers w idea 20 3 s")
  obtain rn s2 where an: "assess_novelty w idea papers s1 = (rn, s2)"
    by (cases "assess_novelty w idea papers s1")
  obtain rd s3 where ad: "assess_doability w idea papers s2 = (rd, s3)"
    by (cases "assess_doability w idea papers s2")
  from Cons.prems(1) sp an obtain nov where rn: "rn = Inr nov"
    by (cases rn) auto
  from Cons.prems(1) sp an ad rn obtain doa where rd: "rd = Inr doa"
    by (cases rd) auto
  let ?tm = "calculate_topic_match (unicode w) idea topics"
  from Cons.prems(1) sp an ad rn rd obtain c where co: "composite nov doa ?tm = Inr c"
    by (cases "composite nov doa ?tm") auto
  let ?item = "\<lparr>si_idea = idea, si_papers = take 8 papers, novelty_assessment = nov,
                 doability_assessment = doa, topic_match_score = ?tm, composite_score = c,
                 literature_synthesis = None\<rparr>"
  have rec: "score_ideas w topics rest (acc @ [?item]) (sleep 3 s3) = (Inr out, s')"
    using Cons.prems(1) sp an ad rn rd co by simp
  have "score_consistent (unicode w) topics ?item"
    using composite_Inr [OF co] by (simp add: score_consistent_def)
  with Cons.prems(2) have "\<forall>x \<in> set (acc @ [?item]). score_consistent (unicode w) topics x" by simp
  with Cons.IH [OF rec] show ?case by blast
qed

lemma score_consistent_syn:
  "score_consistent (unicode w) topics (x\<lparr>literature_synthesis := v\<rparr>)
     = score_consistent (unicode w) topics x"
  by (simp add: score_consistent_def)

lemma synthesize_all_consistent:
  "\<forall>x \<in> set items. score_consistent (unicode w) topics x \<Longrightarrow>
   \<forall>x \<in> set (fst (synthesize_all w items s)). score_consistent (unicode w) topics x"
proof (induction items arbitrary: s)
  case Nil
  show ?case by simp
next
  case (Cons item items)
  obtain syn s1 where a: "synthesize_literature w (si_idea item) (si_papers item) s = (syn, s1)"
    by (cases "synthesize_literature w (si_idea item) (si_papers item) s")
  obtain rest' s2 where b: "synthesize_all w items s1 = (rest', s2)"
    by (cases "synthesize_all w items s1")
  from Cons.prems have "\<forall>x \<in> set items. score_consistent (unicode w) topics x" by simp
  from Cons.IH [OF this, of s1] b have "\<forall>x \<in> set rest'. score_consistent (unicode w) topics x" by simp
  with Cons.prems show ?case by (simp add: a b score_consistent_syn)
qed

lemma research_ideas_consistent:
  assumes "research_ideas w ideas topics s = (Inr r, s')"
  shows "\<forall>x \<in> set (top_ideas r). score_consistent (unicode w) topics x"
proof -
  from assms obtain scored s1 where
    sc: "score_ideas w topics ideas [] s = (Inr scored, s1)" and
    r: "top_ideas r = fst (synthesize_all w
          (select_diverse_top_3 (unicode w) (sort_key (\<lambda>x. - composite_score x) scored)) s1)"
    by (auto simp: research_ideas_def split: prod.splits sum.splits)
  have "\<forall>x \<in> set scored. score_consistent (unicode w) topics x"
    using score_ideas_consistent [OF sc] by simp
  then have "\<forall>x \<in> set (select_diverse_top_3 (unicode w)
        (sort_key (\<lambda>x. - composite_score x) scored)). score_consistent (unicode w) topics x"
    using select_subset [of "unicode w" "sort_key (\<lambda>x. - composite_score x) scored"] by auto
  then show ?thesis
    unfolding r by (rule synthesize_all_consistent)
qed

text \<open>
  C1. Every idea that the scoring loop of \<open>research_ideas\<close> scores, and every idea among
  the top ideas that \<open>research_ideas\<close> returns, has a composite score equal to 0.3 times
  the novelty score of its novelty assessment plus 0.4 times the doability score of its
  doability assessment plus 0.3 times its topic-match score, which is the topic match
  computed for the idea. Scores are real numbers here, so the equation is exact.
\<close>

theorem research_ideas_composite:
  "(score_ideas w user_topics ideas [] s = (Inr scored, s1) \<longrightarrow>
      (\<forall>item \<in> set scored. score_consistent (unicode w) user_topics item))
   \<and> (research_ideas w ideas user_topics s = (Inr r, s') \<longrightarrow>
      (\<forall>item \<in> set (top_ideas r). score_consistent (unicode w) user_topics item))"
  using score_ideas_consistent [of w user_topics ideas "[]" s scored s1]
    research_ideas_consistent [of w ideas user_topics s r s']
  by simp

theorem research_ideas_composite_witness:
  "\<exists>r s'. research_ideas example_world
        [example_idea ''First'', example_idea ''Second'', example_idea ''Third''] [] start
        = (Inr r, s')
     \<and> (\<forall>item \<in> set (top_ideas r). score_consistent ascii_tables [] item)
     \<and> map (title \<circ> si_idea) (top_ideas r) = [''First'', ''Second'', ''Third'']
     \<and> map composite_score (top_ideas r) = [4.1, 4.1, 4.1]"
proof -
  have "\<exists>r s'. research_ideas example_world
        [example_idea ''First'', example_idea ''Second'', example_idea ''Third''] [] start
        = (Inr r, s')
     \<and> map (title \<circ> si_idea) (top_ideas r) = [''First'', ''Second'', ''Third'']
     \<and> map composite_score (top_ideas r) = [4.1, 4.1, 4.1]"
    by (simp add: research_ideas_def search_papers_def upt_3 requests_get_def assess_novelty_def
        assess_doability_def generate_and_parse_def model_generate_def composite_def score_of_def
        subscript_def number_of_def calculate_topic_match_def sleep_def select_diverse_top_3_def
        synthesize_literature_def format_papers_def example_world_def example_idea_def start_def
        or_default_def)
  then obtain r s' where
    run: "research_ideas example_world
        [example_idea ''First'', example_idea ''Second'', example_idea ''Third''] [] start
        = (Inr r, s')" and
    names: "map (title \<circ> si_idea) (top_ideas r) = [''First'', ''Second'', ''Third'']" and
    vals: "map composite_score (top_ideas r) = [4.1, 4.1, 4.1]"
    by (elim exE conjE) (rule that)
  from research_ideas_composite [of example_world "[]"
      "[example_idea ''First'', example_idea ''Second'', example_idea ''Third'']" start _ _ r s'] run
  have "\<forall>item \<in> set (top_ideas r). score_consistent ascii_tables [] item"
    by (simp add: example_world_def)
  with run names vals show ?thesis by (intro exI conjI)
qed

section \<open>Profile inference: results\<close>

lemma find_char_absent: "c \<notin> set s \<Longrightarrow> find_char c s = - 1"
  by (induction s) (auto simp: Let_def)

lemma find_char_lower: "- 1 \<le> find_char c s"
  by (induction s) (auto simp: Let_def)

lemma rfind_char_absent: "c \<notin> set s \<Longrightarrow> rfind_char c s = - 1"
  by (simp add: rfind_char_def find_char_absent)

lemma analyze_description_raises:
  "generate_content w (n_llm s) (profile_prompt t level) = GenerateRaises msg \<Longrightarrow>
   fst (analyze_description w t level s) = default_profile level"
  by (simp add: analyze_description_def model_generate_def)

lemma analyze_description_no_span:
  assumes "generate_content w (n_llm s) (profile_prompt t level) = ResponseText content"
    and "CHR ''{'' \<notin> set content \<or> CHR ''}'' \<notin> set content
         \<or> rfind_char CHR ''}'' content < find_char CHR ''{'' content
         \<or> json_loads w (slice content (find_char CHR ''{'' content) (rfind_char CHR ''}'' content + 1)) = None"
  shows "fst (analyze_description w t level s) = default_profile level"
proof -
  have lo: "- 1 \<le> find_char CHR ''{'' content" by (rule find_char_lower)
  from assms(2) lo show ?thesis
    by (auto simp: analyze_description_def model_generate_def assms(1) Let_def
          find_char_absent rfind_char_absent)
qed

text \<open>
  C8. For every description and every stated level: when the text-analysis call raises, or
  its text has no opening brace or no closing brace, or its last closing brace comes before
  its first opening brace, or the span between them does not parse, \<open>analyze_description\<close>
  returns the default profile: the stated level when one is given (and not empty) and
  "PhD Student" otherwise, research areas ["Machine Learning"], no specific topics, no
  technical skills, style "Mixed", access "Moderate", publication count 0, h-index 0,
  novelty preference 0.5 and doability preference 0.7. The function has no error result.
\<close>

theorem analyze_description_default:
  "(generate_content w (n_llm s) (profile_prompt t level) = GenerateRaises msg
    \<or> (\<exists>content. generate_content w (n_llm s) (profile_prompt t level) = ResponseText content
          \<and> (CHR ''{'' \<notin> set content \<or> CHR ''}'' \<notin> set content
               \<or> rfind_char CHR ''}'' content < find_char CHR ''{'' content
               \<or> json_loads w (slice content (find_char CHR ''{'' content)
                                  (rfind_char CHR ''}'' content + 1)) = None))) \<longrightarrow>
   fst (analyze_description w t level s) =
     JObj [(''expertise_level'',
              JStr (case level of
                      None \<Rightarrow> ''PhD Student''
                    | Some stated \<Rightarrow> if stated \<noteq> [] then stated else ''PhD Student'')),
           (''research_areas'', JArr [JStr ''Machine Learning'']),
           (''specific_topics'', JArr []),
           (''technical_skills'', JArr []),
           (''research_style'', JStr ''Mixed''),
           (''resource_access'', JStr ''Moderate''),
           (''publication_count'', JInt 0),
           (''h_index'', JInt 0),
           (''novelty_preference'', JFloat 0.5),
           (''doability_preference'', JFloat 0.7)]"
  using analyze_description_raises [of w s t level msg] analyze_description_no_span [of w s t level]
  unfolding default_profile_def by blast

theorem analyze_description_default_witness:
  "fst (analyze_description garbled_world ''I study parsing.'' None start) =
     JObj [(''expertise_level'', JStr ''PhD Student''),
           (''research_areas'', JArr [JStr ''Machine Learning'']),
           (''specific_topics'', JArr []),
           (''technical_skills'', JArr []),
           (''research_style'', JStr ''Mixed''),
           (''resource_access'', JStr ''Moderate''),
           (''publication_count'', JInt 0),
           (''h_index'', JInt 0),
           (''novelty_preference'', JFloat 0.5),
           (''doability_preference'', JFloat 0.7)]
   \<and> fst (analyze_description (rate_limited_world 0) ''I study parsing.'' (Some ''Postdoc'') start) =
     JObj [(''expertise_level'', JStr ''Postdoc''),
           (''research_areas'', JArr [JStr ''Machine Learning'']),
           (''specific_topics'', JArr []),
           (''technical_skills'', JArr []),
           (''research_style'', JStr ''Mixed''),
           (''resource_access'', JStr ''Moderate''),
           (''publication_count'', JInt 0),
           (''h_index'', JInt 0),
           (''novelty_preference'', JFloat 0.5),
           (''doability_preference'', JFloat 0.7)]"
  using analyze_description_default [of garbled_world start "''I study parsing.''" None "[]"]
    analyze_description_default [of "rate_limited_world 0" start "''I study parsing.''"
      "Some ''Postdoc''" "''unavailable''"]
  by (simp add: garbled_world_def rate_limited_world_def)

section \<open>The two phases: results\<close>

lemma select_ideas_ints:
  "\<exists>i \<in> set sel. i < 0 \<or> int (length all_ideas) \<le> i \<Longrightarrow>
   \<exists>bad. select_ideas all_ideas (map JInt sel) = InvalidIndex bad"
proof (induction sel)
  case Nil
  then show ?case by simp
next
  case (Cons i sel)
  show ?case
  proof (cases "0 \<le> i \<and> i < int (length all_ideas)")
    case False
    then have "index_in_range all_ideas (JInt i) = Inr False"
      by (simp add: index_in_range_def)
    then show ?thesis by simp
  next
    case True
    with Cons.prems have "\<exists>i \<in> set sel. i < 0 \<or> int (length all_ideas) \<le> i" by auto
    from Cons.IH [OF this] obtain bad where "select_ideas all_ideas (map JInt sel) = InvalidIndex bad"
      by blast
    moreover from True have "index_in_range all_ideas (JInt i) = Inr True"
      by (simp add: index_in_range_def)
    moreover from True have "list_item all_ideas (JInt i) = Inr (all_ideas ! nat i)"
      by (simp add: list_item_def)
    ultimately show ?thesis by simp
  qed
qed

text \<open>
  For a request that names an existing job and selects a list of integers: when the status
  of the job is not "ideas_ready", or the number of selected indices is not 3, or some
  selected index is negative or not below the number of stored candidate ideas, the search
  phase answers with status code 400 and leaves the database, the job with it, and the trace
  of external calls as they were.
\<close>

lemma search_phase_rejects_integers:
  assumes j: "sr_job_id req = Some job" and a: "analyses d job = Some a"
    and sel: "sr_selected_ideas req = Some (JArr (map JInt sel))"
    and bad: "status a \<noteq> ''ideas_ready'' \<or> length sel \<noteq> 3
       \<or> (\<exists>i \<in> set sel. i < 0 \<or> int (length (stored_ideas a)) \<le> i)"
  shows "\<exists>b. analyze_paper_search w req d s = ((400, b), d, s)"
proof (cases "job = [] \<or> length sel \<noteq> 3 \<or> status a \<noteq> ''ideas_ready''")
  case True
  then show ?thesis
    by (auto simp: analyze_paper_search_def j a sel truthy_def or_default_def Let_def
          json_truthy_def py_len_def)
next
  case False
  with bad have idx: "\<exists>i \<in> set sel. i < 0 \<or> int (length (stored_ideas a)) \<le> i"
    by blast
  from False have nonempty: "sel \<noteq> []" by auto
  show ?thesis
  proof (cases "reader_output a")
    case None
    with False nonempty show ?thesis
      by (auto simp: analyze_paper_search_def j a sel truthy_def or_default_def Let_def
            json_truthy_def py_len_def)
  next
    case (Some ro)
    show ?thesis
    proof (cases "ro_ideas ro")
      case None
      with False nonempty Some show ?thesis
        by (auto simp: analyze_paper_search_def j a sel truthy_def or_default_def Let_def
              json_truthy_def py_len_def)
    next
      case (Some all_ideas)
      with \<open>reader_output a = Some ro\<close> have "stored_ideas a = all_ideas"
        by (simp add: stored_ideas_def or_default_def)
      with idx obtain bad_idx where
        "select_ideas all_ideas (map JInt sel) = InvalidIndex bad_idx"
        using select_ideas_ints by blast
      with False nonempty Some \<open>reader_output a = Some ro\<close> show ?thesis
        by (auto simp: analyze_paper_search_def j a sel truthy_def or_default_def Let_def
              json_truthy_def py_len_def py_iter_def)
    qed
  qed
qed

text \<open>
  C4. The search phase takes the length of \<open>selected_ideas\<close> before it looks at the job,
  and compares and indexes with each element, whatever JSON the request holds. A request
  with \<open>selected_ideas\<close> equal to the number 5 on a job that is complete raises
  \<open>TypeError\<close> in \<open>len\<close>; a request with the three elements 0, 1 and the string "2" on
  a job that is at "ideas_ready" raises it in the comparison. In both cases the handler puts
  the job in the error state and the answer is 500, not a client error.
\<close>

theorem search_phase_type_error_fails_job:
  "(let run = analyze_paper_search example_app
                \<lparr>sr_job_id = Some ''job'', sr_selected_ideas = Some (JInt 5)\<rparr>
                (example_db ''complete'' 100) start
    in fst (fst run) = 500
       \<and> map_option status (analyses (fst (snd run)) ''job'') = Some ''error''
       \<and> map_option error_message (analyses (fst (snd run)) ''job'')
           = Some (Some ''object has no len()''))
   \<and> (let run = analyze_paper_search example_app
                \<lparr>sr_job_id = Some ''job'',
                  sr_selected_ideas = Some (JArr [JInt 0, JInt 1, JStr ''2''])\<rparr>
                (example_db ''ideas_ready'' 60) start
    in fst (fst run) = 500
       \<and> map_option status (analyses (fst (snd run)) ''job'') = Some ''error'')"
  by (simp add: analyze_paper_search_def truthy_def or_default_def json_truthy_def py_len_def
        py_iter_def index_in_range_def list_item_def mark_error_def commit_def str_error_def
        example_db_def example_analysis_def example_reader_output_def Let_def)

lemmas read_eval = analyze_paper_read_def truthy_def or_default_def example_db_def example_analysis_def
  example_app_def profile_snapshot_def commit_def start_def Let_def

text \<open>
  C5. The read phase does not check the status of the job. Run on a job that is complete at
  progress 100, it succeeds and leaves the job at "ideas_ready" with progress 60; run on a
  job in the error state, it takes the job out of that state.
\<close>

theorem read_phase_reopens_job:
  "(let run = analyze_paper_read example_app \<lparr>rr_job_id = Some ''job'', rr_topics = [''nlp'']\<rparr>
                (example_db ''complete'' 100) start
    in fst (fst run) = 200
       \<and> map_option status (analyses (fst (snd run)) ''job'') = Some ''ideas_ready''
       \<and> map_option progress (analyses (fst (snd run)) ''job'') = Some 60)
   \<and> (let run = analyze_paper_read example_app \<lparr>rr_job_id = Some ''job'', rr_topics = [''nlp'']\<rparr>
                (example_db ''error'' 40) start
    in fst (fst run) = 200
       \<and> map_option status (analyses (fst (snd run)) ''job'') = Some ''ideas_ready''
       \<and> map_option progress (analyses (fst (snd run)) ''job'') = Some 60)"
  by (simp add: read_eval)

text \<open>
  C9. The read phase does not check that the job has no reader output. Run on a job that is
  at "ideas_ready" and holds a reader output, it calls the text extraction and the reader
  and replaces the stored output.
\<close>

theorem read_phase_overwrites_reader_output:
  "reader_output (example_analysis ''ideas_ready'' 60) = Some example_reader_output
   \<and> (let run = analyze_paper_read example_app \<lparr>rr_job_id = Some ''job'', rr_topics = [''nlp'']\<rparr>
                (example_db ''ideas_ready'' 60) start
      in fst (fst run) = 200
         \<and> map_option reader_output (analyses (fst (snd run)) ''job'') = Some (Some fresh_reader_output)
         \<and> trace (snd (snd run)) =
             [ExtractText ''uploads/paper.pdf'', AnalyzePaper ''Attention is all you need'' [''nlp'']])"
  by (simp add: read_eval)

text \<open>
  The other half of that claim holds: with no topic the read phase answers 400 (or 404 for an
  unknown job) and changes neither the database nor the trace, so no collaborator is called.
\<close>

lemma read_phase_empty_topics:
  "rr_topics req = [] \<Longrightarrow>
   \<exists>code msg. analyze_paper_read w req d s = ((code, ErrorBody msg), d, s) \<and> (code = 400 \<or> code = 404)"
  by (auto simp: analyze_paper_read_def Let_def split: option.splits)

subsection \<open>What one invocation does to a job\<close>

lemma mark_error_job:
  "analyses d job = Some a \<Longrightarrow>
   analyses (mark_error job msg d) job = Some (a\<lparr>status := ''error'', error_message := Some msg\<rparr>)"
  by (simp add: mark_error_def commit_def)

lemma commit_job: "analyses (commit job a d) job = Some a"
  by (simp add: commit_def)

text \<open>
  One invocation of the read phase leaves the job as it was, or in the error state, or at
  "ideas_ready" with progress 60, whatever its status was before.
\<close>

lemma read_phase_outcomes:
  assumes "analyses d job = Some a" and "rr_job_id req = Some job"
    and "analyses (fst (snd (analyze_paper_read w req d s))) job = Some a'"
  shows "a' = a \<or> status a' = ''error'' \<or> (status a' = ''ideas_ready'' \<and> progress a' = 60)"
  using assms
  by (auto simp: analyze_paper_read_def Let_def or_default_def mark_error_job commit_job
           split: if_splits option.splits sum.splits)

text \<open>
  One invocation of the search phase leaves the job as it was, or in the error state, or
  takes it from "ideas_ready" to "complete" with progress 100.
\<close>

lemma search_phase_outcomes:
  assumes "analyses d job = Some a" and "sr_job_id req = Some job"
    and "analyses (fst (snd (analyze_paper_search w req d s))) job = Some a'"
  shows "a' = a \<or> status a' = ''error''
         \<or> (status a = ''ideas_ready'' \<and> status a' = ''complete'' \<and> progress a' = 100)"
  using assms
  by (auto simp: analyze_paper_search_def Let_def or_default_def mark_error_job commit_job
           split: if_splits option.splits sum.splits prod.splits selection.splits)

end
